theory Spec2Isabelle
  imports Main "HOL-Library.AList"
begin

section \<open>JavaScript values held by the configuration document\<close>

text \<open>
  The class \<^verbatim>\<open>Configuration\<close> keeps the result of \<^verbatim>\<open>JSON.parse\<close> in a static field and
  hands out views of it. A value is what \<^verbatim>\<open>JSON.parse\<close> can produce, plus \<^verbatim>\<open>NaN\<close> (the
  result of \<^verbatim>\<open>parseInt\<close> on a text with no digits), the two infinities (its result on
  a text of digits beyond the range of a Number) and arrays that carry named
  properties (an assignment \<^verbatim>\<open>a.port = n\<close> on an array adds one). The value
  \<^verbatim>\<open>undefined\<close> is \<open>None\<close> of an option type. Objects are association lists read with
  \<open>map_of\<close>; the enumeration order of keys is not observable through the accessors and
  is not modelled. Numbers are the integers: the accessors copy numbers and never
  compute with them. Characters are code units below 256.
\<close>

datatype jsvalue =
    JNull
  | JBool bool
  | JNum int
  | JNaN
  | JInfinity
  | JMinusInfinity
  | JStr string
  | JArr "jsvalue list" "(string \<times> jsvalue) list"
  | JObj "(string \<times> jsvalue) list"

text \<open>
  What a thrown exception carries: a \<^verbatim>\<open>TypeError\<close> of the runtime, or \<^verbatim>\<open>new Error(msg)\<close>.
  \<open>ExpectedObject arg\<close> is the error of \<^verbatim>\<open>just-merge\<close>,
  \<^verbatim>\<open>new Error('expected object, got ' + arg)\<close>, kept with the argument in place of the text
  made of it.
\<close>

datatype js_error = TypeError | Error string | ExpectedObject "jsvalue option"

text \<open>\<^verbatim>\<open>!v\<close> is \<open>\<not> truthy v\<close>.\<close>

fun truthy :: "jsvalue \<Rightarrow> bool" where
  "truthy JNull = False"
| "truthy (JBool b) = b"
| "truthy (JNum n) = (n \<noteq> 0)"
| "truthy JNaN = False"
| "truthy JInfinity = True"
| "truthy JMinusInfinity = True"
| "truthy (JStr s) = (s \<noteq> [])"
| "truthy (JArr xs ps) = True"
| "truthy (JObj kvs) = True"

text \<open>
  \<^verbatim>\<open>v?.k\<close>: the property \<open>k\<close> of \<open>v\<close>, \<^verbatim>\<open>undefined\<close> when \<open>v\<close> is \<^verbatim>\<open>null\<close>. Every key the
  class reads, sets or deletes by name is a fixed identifier, never an array index,
  \<^verbatim>\<open>length\<close> or a name of \<^verbatim>\<open>Object.prototype\<close>, so numbers, booleans and strings have none
  of them and an array has only its named properties.
\<close>

fun member :: "jsvalue \<Rightarrow> string \<Rightarrow> jsvalue option" where
  "member (JObj kvs) k = map_of kvs k"
| "member (JArr xs ps) k = map_of ps k"
| "member v k = None"

text \<open>\<^verbatim>\<open>v[k]\<close> and \<^verbatim>\<open>v.k\<close>: as \<open>member\<close>, but reading a property of \<^verbatim>\<open>null\<close> throws.\<close>

definition get_prop :: "jsvalue \<Rightarrow> string \<Rightarrow> js_error + jsvalue option" where
  "get_prop v k = (if v = JNull then Inl TypeError else Inr (member v k))"

text \<open>
  \<^verbatim>\<open>v.k = x\<close> in strict mode (an ES module): objects and arrays take the property,
  \<^verbatim>\<open>null\<close> and primitive values throw.
\<close>

fun set_prop :: "jsvalue \<Rightarrow> string \<Rightarrow> jsvalue \<Rightarrow> js_error + jsvalue" where
  "set_prop (JObj kvs) k x = Inr (JObj (AList.update k x kvs))"
| "set_prop (JArr xs ps) k x = Inr (JArr xs (AList.update k x ps))"
| "set_prop v k x = Inl TypeError"

text \<open>\<^verbatim>\<open>delete v?.k\<close>: removes an own property of an object or array, nothing otherwise.\<close>

fun delete_prop :: "jsvalue \<Rightarrow> string \<Rightarrow> jsvalue" where
  "delete_prop (JObj kvs) k = JObj (AList.delete k kvs)"
| "delete_prop (JArr xs ps) k = JArr xs (AList.delete k ps)"
| "delete_prop v k = v"

text \<open>Decimal text of an array index, for the keys \<^verbatim>\<open>for (key in array)\<close> enumerates.\<close>

fun string_of_nat :: "nat \<Rightarrow> string" where
  "string_of_nat n =
     (if n < 10 then [char_of (48 + n)]
      else string_of_nat (n div 10) @ [char_of (48 + n mod 10)])"

declare string_of_nat.simps [simp del]

definition index_entries :: "jsvalue list \<Rightarrow> (string \<times> jsvalue) list" where
  "index_entries xs = zip (map string_of_nat [0..<length xs]) xs"

text \<open>
  The own enumerable properties of a value, as \<^verbatim>\<open>for (key in v)\<close> and the object spread
  \<^verbatim>\<open>{...v}\<close> read them: the entries of an object, the indices and named properties of
  an array, the characters of a string, nothing for the other values.
\<close>

fun own_entries :: "jsvalue \<Rightarrow> (string \<times> jsvalue) list" where
  "own_entries (JObj kvs) = kvs"
| "own_entries (JArr xs ps) = index_entries xs @ ps"
| "own_entries (JStr s) = index_entries (map (\<lambda>c. JStr [c]) s)"
| "own_entries v = []"

text \<open>
  \<open>assign_entries tgt src\<close> writes every entry of \<open>src\<close> into \<open>tgt\<close>: a key of \<open>tgt\<close> keeps
  its place and takes the new value, a new key is added. An object has each key once;
  on a list that repeats a key the binding \<open>map_of\<close> reads wins.
\<close>

definition assign_entries ::
  "(string \<times> jsvalue) list \<Rightarrow> (string \<times> jsvalue) list \<Rightarrow> (string \<times> jsvalue) list" where
  "assign_entries tgt src = foldr (\<lambda>(k, v). AList.update k v) src tgt"

fun is_object :: "jsvalue \<Rightarrow> bool" where
  "is_object (JObj kvs) = True"
| "is_object (JArr xs ps) = True"
| "is_object v = False"

text \<open>
  \<^verbatim>\<open>merge\<close> of the package \<^verbatim>\<open>just-merge\<close>, which the class imports: a shallow assign.
  \<^verbatim>\<open>
  function merge(/* obj1, obj2, [objn] */) {
    ...
    while (((arg = args[i - 1]), i--)) {
      if (!arg || (typeof arg != 'object' && typeof arg != 'function')) {
        throw new Error('expected object, got ' + arg);
      }
    }
    var result = args[0];
    ...
      for (var key in extender) { result[key] = extender[key]; }
    return result;
  }
  \<close>
  The target of the only call is a fresh object literal; the extender is a property of
  the document, \<^verbatim>\<open>undefined\<close> when the document is \<^verbatim>\<open>null\<close>.

  The keys of the extender are those of the document, any text. The assignment
  \<^verbatim>\<open>result[key] = v\<close> makes an own property for every key but \<^verbatim>\<open>__proto__\<close>, which
  \<^verbatim>\<open>JSON.parse\<close> stores as an own property of the extender and for which the assignment
  calls the setter of \<^verbatim>\<open>Object.prototype\<close>: an object, an array or \<^verbatim>\<open>null\<close> becomes the
  prototype of the result, any other value is ignored. So the result is kept as its
  own properties and the value that replaced its prototype, \<open>None\<close> when none did.
\<close>

record merged_object =
  own_properties :: "(string \<times> jsvalue) list"
  replaced_prototype :: "jsvalue option"

definition prototype_of :: "jsvalue option \<Rightarrow> jsvalue option" where
  "prototype_of v =
     (case v of
        None \<Rightarrow> None
      | Some x \<Rightarrow> if is_object x \<or> x = JNull then Some x else None)"

definition just_merge ::
  "(string \<times> jsvalue) list \<Rightarrow> jsvalue option \<Rightarrow> js_error + merged_object" where
  "just_merge tgt ext =
     (case ext of
        None \<Rightarrow> Inl (ExpectedObject None)
      | Some e \<Rightarrow>
          if is_object e then
            Inr \<lparr>own_properties =
                   assign_entries tgt (AList.delete ''__proto__'' (own_entries e)),
                 replaced_prototype = prototype_of (map_of (own_entries e) ''__proto__'')\<rparr>
          else Inl (ExpectedObject (Some e)))"

section \<open>Helpers of \<^verbatim>\<open>Utils\<close>\<close>

text \<open>
  The class imports \<^verbatim>\<open>Utils\<close> from \<^verbatim>\<open>./Utils\<close>, which is not among the sources. Its
  fourth helper, \<^verbatim>\<open>Utils.isCFEnvironment\<close>, is a field of the platform below.
\<close>

text \<open>
  Modelled from the spec: \<^verbatim>\<open>Utils.isUndefined\<close> is missing. The spec reads the tests made
  with it as presence of a key ("if the legacy key is present"): a value is undefined
  when there is none.
\<close>

definition isUndefined :: "jsvalue option \<Rightarrow> bool" where
  "isUndefined v = (v = None)"

text \<open>
  Modelled from the spec: \<^verbatim>\<open>Utils.hasOwnProp\<close> is missing. The spec reads the tests made
  with it as existence checks on the document, "an open-ended mapping from string keys
  to arbitrary nested values" ("if the section key exists in the document", "each key
  present independently"): a key is present when the value is an object that holds it.
\<close>

definition hasOwnProp :: "jsvalue \<Rightarrow> string \<Rightarrow> bool" where
  "hasOwnProp obj k = (case obj of JObj kvs \<Rightarrow> map_of kvs k \<noteq> None | _ \<Rightarrow> False)"

text \<open>\<^verbatim>\<open>String.prototype.trim\<close> on code units below 256: TAB, LF, VT, FF, CR, SP, NBSP.\<close>

definition is_space :: "char \<Rightarrow> bool" where
  "is_space c = (of_char c \<in> {9, 10, 11, 12, 13, 32, 160 :: nat})"

definition trim :: "string \<Rightarrow> string" where
  "trim s = rev (dropWhile is_space (rev (dropWhile is_space s)))"

text \<open>
  Modelled from the spec: \<^verbatim>\<open>Utils.isNotEmptyString\<close> is missing. The spec only says a
  log prefix goes before the message; the name says the text is a string that is not
  empty, which is read here as the class itself reads a filename: not empty after
  trimming.
\<close>

definition isNotEmptyString :: "string \<Rightarrow> bool" where
  "isNotEmptyString s = (trim s \<noteq> [])"

section \<open>The state of the class and the platform it runs on\<close>

text \<open>
  What \<^verbatim>\<open>console.error\<close> and \<^verbatim>\<open>console.warn\<close> print. A line keeps the log prefix and
  the parts of the message instead of the coloured text.
\<close>

datatype diagnostic =
    DeprecatedSection string
  | DeprecatedKey string "string option" string
  | DeprecatedNumberOfStation "jsvalue option"

datatype console_line =
    ConsoleError string diagnostic
  | ConsoleWarn string string "string option"

text \<open>
  The static fields. \<open>configuration\<close> is \<open>JNull\<close> for \<^verbatim>\<open>null\<close>; the watcher and the
  callback are \<open>None\<close> for \<^verbatim>\<open>undefined\<close>. A callback is named by a number; what it does
  when called is given to the watch listener. \<open>fs_watches\<close> counts the subscriptions
  \<^verbatim>\<open>fs.watch\<close> has created: the class never closes one.
\<close>

record store =
  configuration :: jsvalue
  configurationFileWatcher :: "nat option"
  configurationChangeCallback :: "nat option"
  console :: "console_line list"
  fs_watches :: nat

definition initial_store :: store where
  "initial_store =
     \<lparr>configuration = JNull, configurationFileWatcher = None,
      configurationChangeCallback = None, console = [], fs_watches = 0\<rparr>"

text \<open>
  What the class takes from outside: the file system, the process environment, the
  clock, the built-ins of Node it calls, and the constants of \<^verbatim>\<open>./Constants\<close>,
  \<^verbatim>\<open>../types\<close>, \<^verbatim>\<open>../worker\<close> and \<^verbatim>\<open>poolifier\<close>, none of which is among the sources.
  \<^item> \<open>readConfigurationFile\<close>: the outcome of \<^verbatim>\<open>JSON.parse(fs.readFileSync(file, 'utf8'))\<close>,
    \<open>Inl code\<close> when it throws an error whose \<^verbatim>\<open>code\<close> is \<open>code\<close>.
  \<^item> \<open>watchConfigurationFile\<close>: \<open>None\<close> when \<^verbatim>\<open>fs.watch\<close> returns a watcher, \<open>Some code\<close>
    when it throws.
  \<^item> \<open>isCFEnvironment\<close>: \<^verbatim>\<open>Utils.isCFEnvironment()\<close>; \<open>env_PORT\<close>: \<^verbatim>\<open>process.env.PORT\<close>.
  \<^item> \<open>url_pathname v\<close>: \<^verbatim>\<open>new URL(v).pathname\<close>, \<open>None\<close> when the constructor throws.
  \<^item> \<open>installParentDir\<close>:
    \<^verbatim>\<open>path.resolve(path.dirname(fileURLToPath(import.meta.url)), '../')\<close>;
    \<open>path_join\<close>: \<^verbatim>\<open>path.join\<close> of two paths.
  A platform value is the outside as it is during one call of a method; another call
  may meet another one.
\<close>

record platform =
  configurationFile :: string
  readConfigurationFile :: "string option + jsvalue"
  watchConfigurationFile :: "string option option"
  dateNow :: string
  isCFEnvironment :: bool
  env_PORT :: "string option"
  url_pathname :: "jsvalue \<Rightarrow> string option"
  installParentDir :: string
  path_join :: "string \<Rightarrow> string \<Rightarrow> string"
  FileType_Configuration :: string
  DEFAULT_UI_SERVER_HOST :: jsvalue
  DEFAULT_UI_SERVER_PORT :: jsvalue
  ApplicationProtocol_WS :: string
  StorageType_JSON_FILE :: string
  StorageType_SQLITE :: string
  DEFAULT_PERFORMANCE_RECORDS_FILENAME :: string
  DEFAULT_PERFORMANCE_RECORDS_DB_NAME :: string
  WorkerProcessType_workerSet :: string
  WorkerProcessType_staticPool :: string
  WorkerProcessType_dynamicPool :: string
  DEFAULT_WORKER_START_DELAY :: jsvalue
  DEFAULT_ELEMENTS_PER_WORKER :: jsvalue
  DEFAULT_ELEMENT_START_DELAY :: jsvalue
  DEFAULT_POOL_MIN_SIZE :: jsvalue
  DEFAULT_POOL_MAX_SIZE :: jsvalue
  WorkerChoiceStrategies_ROUND_ROBIN :: string
  DEFAULT_LOG_STATISTICS_INTERVAL :: jsvalue
  SupervisionUrlDistribution_ROUND_ROBIN :: string

text \<open>
  A method of the class: it reads and writes the static fields and returns a value or
  throws. What it wrote before throwing stays written.
\<close>

type_synonym 'a action = "store \<Rightarrow> (js_error + 'a) \<times> store"

definition ok :: "'a \<Rightarrow> 'a action" where
  "ok x st = (Inr x, st)"

definition raise :: "js_error \<Rightarrow> 'a action" where
  "raise e st = (Inl e, st)"

definition and_then :: "'a action \<Rightarrow> ('a \<Rightarrow> 'b action) \<Rightarrow> 'b action" where
  "and_then m f st = (case m st of (Inl e, st') \<Rightarrow> (Inl e, st') | (Inr x, st') \<Rightarrow> f x st')"

definition lift :: "js_error + 'a \<Rightarrow> 'a action" where
  "lift r st = (r, st)"

definition console_error :: "string \<Rightarrow> diagnostic \<Rightarrow> unit action" where
  "console_error prefix d st = (Inr (), st\<lparr>console := console st @ [ConsoleError prefix d]\<rparr>)"

section \<open>Loading and watching the file\<close>

definition logPrefix :: "platform \<Rightarrow> string" where
  "logPrefix p = dateNow p @ '' Simulator configuration |''"

definition handleFileException ::
  "string \<Rightarrow> string \<Rightarrow> string option \<Rightarrow> string \<Rightarrow> store \<Rightarrow> store" where
  "handleFileException file fileType code lp st =
     (let prefix = (if isNotEmptyString lp then lp @ '' '' else '''');
          logMsg =
            (if code = Some ''ENOENT'' then fileType @ '' file '' @ file @ '' not found:''
             else if code = Some ''EEXIST'' then fileType @ '' file '' @ file @ '' already exists:''
             else if code = Some ''EACCES'' then fileType @ '' file '' @ file @ '' access denied:''
             else fileType @ '' file '' @ file @ '' error:'')
      in st\<lparr>console := console st @ [ConsoleWarn prefix (logMsg @ '' '') code]\<rparr>)"

text \<open>
  \<^verbatim>\<open>getConfigurationFileWatcher\<close>: the watcher \<^verbatim>\<open>fs.watch\<close> returns, or \<^verbatim>\<open>undefined\<close> after
  the warning when it throws.
\<close>

definition getConfigurationFileWatcher :: "platform \<Rightarrow> store \<Rightarrow> nat option \<times> store" where
  "getConfigurationFileWatcher p st =
     (case watchConfigurationFile p of
        None \<Rightarrow> (Some (fs_watches st), st\<lparr>fs_watches := Suc (fs_watches st)\<rparr>)
      | Some code \<Rightarrow>
          (None, handleFileException (configurationFile p) (FileType_Configuration p) code
                   (logPrefix p) st))"

text \<open>
  \<^verbatim>\<open>getConfig\<close>: when the cached document is falsy, read and parse the file (a failure
  is logged and leaves the cache as it was), then create the watcher if there is none;
  the test for the watcher stands after the \<^verbatim>\<open>try\<close>, not inside it.
\<close>

definition getConfig :: "platform \<Rightarrow> jsvalue action" where
  "getConfig p st =
     (if \<not> truthy (configuration st) then
        let st1 =
              (case readConfigurationFile p of
                 Inr v \<Rightarrow> st\<lparr>configuration := v\<rparr>
               | Inl code \<Rightarrow>
                   handleFileException (configurationFile p) (FileType_Configuration p) code
                     (logPrefix p) st);
            st2 =
              (if configurationFileWatcher st1 = None then
                 (case getConfigurationFileWatcher p st1 of
                    (w, s) \<Rightarrow> s\<lparr>configurationFileWatcher := w\<rparr>)
               else st1)
        in (Inr (configuration st2), st2)
      else (Inr (configuration st), st))"

text \<open>The three ways the methods read the document.\<close>

text \<open>\<^verbatim>\<open>Utils.hasOwnProp(Configuration.getConfig(), k)\<close>\<close>

definition configHasOwnProp :: "platform \<Rightarrow> string \<Rightarrow> bool action" where
  "configHasOwnProp p k = and_then (getConfig p) (\<lambda>cfg. ok (hasOwnProp cfg k))"

text \<open>\<^verbatim>\<open>Configuration.getConfig()?.k\<close>\<close>

definition configMember :: "platform \<Rightarrow> string \<Rightarrow> jsvalue option action" where
  "configMember p k = and_then (getConfig p) (\<lambda>cfg. ok (member cfg k))"

text \<open>\<^verbatim>\<open>Configuration.getConfig()[k]\<close> and \<^verbatim>\<open>Configuration.getConfig().k\<close>\<close>

definition configProp :: "platform \<Rightarrow> string \<Rightarrow> jsvalue option action" where
  "configProp p k = and_then (getConfig p) (\<lambda>cfg. lift (get_prop cfg k))"

section \<open>Deprecation diagnostics\<close>

definition deprecationSuffix :: "string \<Rightarrow> string" where
  "deprecationSuffix logMsgToAppend =
     (if length (trim logMsgToAppend) > 0 then ''. '' @ logMsgToAppend else '''')"

text \<open>
  The condition of the first branch:
  \<^verbatim>\<open>sectionName && !isUndefined(getConfig()[sectionName]) &&
     !isUndefined(getConfig()[sectionName][key])\<close>.
\<close>

definition sectionHoldsKey :: "platform \<Rightarrow> string option \<Rightarrow> string \<Rightarrow> bool action" where
  "sectionHoldsKey p sectionName key =
     (case sectionName of
        None \<Rightarrow> ok False
      | Some sn \<Rightarrow>
          if sn = [] then ok False
          else
            and_then (configProp p sn) (\<lambda>sec.
              if isUndefined sec then ok False
              else
                and_then (configProp p sn) (\<lambda>sec'.
                  case sec' of
                    None \<Rightarrow> raise TypeError
                  | Some s \<Rightarrow>
                      and_then (lift (get_prop s key)) (\<lambda>v. ok (\<not> isUndefined v)))))"

definition warnDeprecatedConfigurationKey ::
  "platform \<Rightarrow> string \<Rightarrow> string option \<Rightarrow> string \<Rightarrow> unit action" where
  "warnDeprecatedConfigurationKey p key sectionName logMsgToAppend =
     and_then (sectionHoldsKey p sectionName key) (\<lambda>in_section.
       if in_section then
         console_error (logPrefix p)
           (DeprecatedKey key sectionName (deprecationSuffix logMsgToAppend))
       else
         and_then (configProp p key) (\<lambda>v.
           if \<not> isUndefined v then
             console_error (logPrefix p)
               (DeprecatedKey key None (deprecationSuffix logMsgToAppend))
           else ok ()))"

section \<open>Accessors of single keys\<close>

text \<open>\<^verbatim>\<open>Utils.hasOwnProp(getConfig(), k) ? getConfig()?.k : d\<close>\<close>

definition configOrDefault :: "platform \<Rightarrow> string \<Rightarrow> jsvalue \<Rightarrow> jsvalue option action" where
  "configOrDefault p k d =
     and_then (configHasOwnProp p k) (\<lambda>present.
       if present then configMember p k else ok (Some d))"

text \<open>
  \<^verbatim>\<open>a && b\<close> with a boolean \<open>a\<close>: \<^verbatim>\<open>false\<close> when \<open>a\<close> is false, else \<open>b\<close> (which may be
  \<^verbatim>\<open>undefined\<close>). \<^verbatim>\<open>getLogMaxSize\<close> tests the key \<^verbatim>\<open>logMaxFiles\<close>, as the source does.
\<close>

definition getLogMaxFiles :: "platform \<Rightarrow> jsvalue option action" where
  "getLogMaxFiles p =
     and_then (configHasOwnProp p ''logMaxFiles'') (\<lambda>present.
       if present then configMember p ''logMaxFiles'' else ok (Some (JBool False)))"

definition getLogMaxSize :: "platform \<Rightarrow> jsvalue option action" where
  "getLogMaxSize p =
     and_then (configHasOwnProp p ''logMaxFiles'') (\<lambda>present.
       if present then configMember p ''logMaxSize'' else ok (Some (JBool False)))"

definition getLogStatisticsInterval :: "platform \<Rightarrow> jsvalue option action" where
  "getLogStatisticsInterval p =
     and_then (warnDeprecatedConfigurationKey p ''statisticsDisplayInterval'' None
                 ''Use 'logStatisticsInterval' instead'') (\<lambda>_.
       configOrDefault p ''logStatisticsInterval'' (DEFAULT_LOG_STATISTICS_INTERVAL p))"

definition getAutoReconnectMaxRetries :: "platform \<Rightarrow> jsvalue option action" where
  "getAutoReconnectMaxRetries p =
     and_then (warnDeprecatedConfigurationKey p ''autoReconnectTimeout'' None
                 ''Use 'ConnectionTimeOut' OCPP parameter in charging station template instead'')
       (\<lambda>_.
     and_then (warnDeprecatedConfigurationKey p ''connectionTimeout'' None
                 ''Use 'ConnectionTimeOut' OCPP parameter in charging station template instead'')
       (\<lambda>_.
     and_then (warnDeprecatedConfigurationKey p ''autoReconnectMaxRetries'' None
                 ''Use it in charging station template instead'') (\<lambda>_.
     and_then (configHasOwnProp p ''autoReconnectMaxRetries'') (\<lambda>present.
       if present then configMember p ''autoReconnectMaxRetries'' else ok None))))"

definition getLogConsole :: "platform \<Rightarrow> jsvalue option action" where
  "getLogConsole p =
     and_then (warnDeprecatedConfigurationKey p ''consoleLog'' None
                 ''Use 'logConsole' instead'') (\<lambda>_.
       configOrDefault p ''logConsole'' (JBool False))"

definition getLogFormat :: "platform \<Rightarrow> jsvalue option action" where
  "getLogFormat p = configOrDefault p ''logFormat'' (JStr ''simple'')"

definition getLogRotate :: "platform \<Rightarrow> jsvalue option action" where
  "getLogRotate p = configOrDefault p ''logRotate'' (JBool True)"

text \<open>
  \<^verbatim>\<open>String.prototype.toLowerCase\<close> on code units below 256: the letters A to Z and the
  capital letters of Latin-1.
\<close>

definition lower_char :: "char \<Rightarrow> char" where
  "lower_char c =
     (let n = (of_char c :: nat)
      in if (65 \<le> n \<and> n \<le> 90) \<or> (192 \<le> n \<and> n \<le> 222 \<and> n \<noteq> 215) then char_of (n + 32)
         else c)"

definition toLowerCase :: "string \<Rightarrow> string" where
  "toLowerCase s = map lower_char s"

text \<open>
  \<^verbatim>\<open>getConfig()?.logLevel?.toLowerCase()\<close>: \<^verbatim>\<open>undefined\<close> on \<^verbatim>\<open>undefined\<close> and \<^verbatim>\<open>null\<close>; a
  value that is not a string has no such method and the call throws.
\<close>

definition getLogLevel :: "platform \<Rightarrow> jsvalue option action" where
  "getLogLevel p =
     and_then (configHasOwnProp p ''logLevel'') (\<lambda>present.
       if present then
         and_then (configMember p ''logLevel'') (\<lambda>v.
           case v of
             None \<Rightarrow> ok None
           | Some (JStr s) \<Rightarrow> ok (Some (JStr (toLowerCase s)))
           | Some x \<Rightarrow> if x = JNull then ok None else raise TypeError)
       else ok (Some (JStr ''info'')))"

definition getLogFile :: "platform \<Rightarrow> jsvalue option action" where
  "getLogFile p = configOrDefault p ''logFile'' (JStr ''combined.log'')"

definition getLogErrorFile :: "platform \<Rightarrow> jsvalue option action" where
  "getLogErrorFile p =
     and_then (warnDeprecatedConfigurationKey p ''errorFile'' None
                 ''Use 'logErrorFile' instead'') (\<lambda>_.
       configOrDefault p ''logErrorFile'' (JStr ''error.log''))"

definition getSupervisionUrlDistribution :: "platform \<Rightarrow> jsvalue option action" where
  "getSupervisionUrlDistribution p =
     and_then (warnDeprecatedConfigurationKey p ''distributeStationToTenantEqually'' None
                 ''Use 'supervisionUrlDistribution' instead'') (\<lambda>_.
     and_then (warnDeprecatedConfigurationKey p ''distributeStationsToTenantsEqually'' None
                 ''Use 'supervisionUrlDistribution' instead'') (\<lambda>_.
       configOrDefault p ''supervisionUrlDistribution''
         (JStr (SupervisionUrlDistribution_ROUND_ROBIN p))))"

section \<open>The UI server section\<close>

definition defaultUIServer :: "platform \<Rightarrow> (string \<times> jsvalue) list" where
  "defaultUIServer p =
     [(''enabled'', JBool False),
      (''type'', JStr (ApplicationProtocol_WS p)),
      (''options'',
         JObj [(''host'', DEFAULT_UI_SERVER_HOST p), (''port'', DEFAULT_UI_SERVER_PORT p)])]"

text \<open>
  \<^verbatim>\<open>parseInt(text)\<close> with no radix: leading white space and a sign are skipped, a prefix
  \<^verbatim>\<open>0x\<close> selects base 16, the longest run of digits is read, and a text with no digit
  gives \<^verbatim>\<open>NaN\<close>; \<^verbatim>\<open>parseInt(undefined)\<close> reads the text \<^verbatim>\<open>undefined\<close>. The integer read
  becomes a Number: itself below \<open>2 ^ 53\<close>; above, the nearest integer with 53
  significant bits, a tie going to the even one, as V8 rounds; and \<^verbatim>\<open>Infinity\<close> from
  \<open>2 ^ 1024\<close> on.
\<close>

definition digit_of :: "nat \<Rightarrow> char \<Rightarrow> nat option" where
  "digit_of radix c =
     (let n = (of_char c :: nat);
          d = (if 48 \<le> n \<and> n \<le> 57 then Some (n - 48)
               else if 97 \<le> n \<and> n \<le> 122 then Some (n - 87)
               else if 65 \<le> n \<and> n \<le> 90 then Some (n - 55)
               else None)
      in case d of None \<Rightarrow> None | Some v \<Rightarrow> if v < radix then Some v else None)"

definition digits_value :: "nat \<Rightarrow> string \<Rightarrow> int" where
  "digits_value radix ds =
     foldl (\<lambda>acc c. acc * int radix +
                       (case digit_of radix c of None \<Rightarrow> 0 | Some d \<Rightarrow> int d)) 0 ds"

function bit_length :: "int \<Rightarrow> nat" where
  "bit_length n = (if n \<le> 0 then 0 else Suc (bit_length (n div 2)))"
  by pat_completeness auto

termination bit_length
  by (relation "measure nat") auto

declare bit_length.simps [simp del]

text \<open>The Number of an integer that is not negative; \<open>None\<close> is \<^verbatim>\<open>Infinity\<close>.\<close>

definition number_of_int :: "int \<Rightarrow> int option" where
  "number_of_int n =
     (if n < 2 ^ 53 then Some n
      else
        let e = bit_length n - 53;
            q = n div 2 ^ e;
            r = n mod 2 ^ e;
            q' = (if 2 * r > 2 ^ e \<or> (2 * r = 2 ^ e \<and> odd q) then q + 1 else q);
            m = q' * 2 ^ e
        in if m < 2 ^ 1024 then Some m else None)"

definition parseInt :: "string option \<Rightarrow> jsvalue" where
  "parseInt inp =
     (case inp of
        None \<Rightarrow> JNaN
      | Some s \<Rightarrow>
          let s1 = dropWhile is_space s;
              neg = (take 1 s1 = ''-'');
              s2 = (if take 1 s1 = ''-'' \<or> take 1 s1 = ''+'' then drop 1 s1 else s1);
              hex = (take 2 s2 = ''0x'' \<or> take 2 s2 = ''0X'');
              radix = (if hex then 16 else 10);
              s3 = (if hex then drop 2 s2 else s2);
              ds = takeWhile (\<lambda>c. digit_of radix c \<noteq> None) s3
          in if ds = [] then JNaN
             else
               (case number_of_int (digits_value radix ds) of
                  Some m \<Rightarrow> JNum ((if neg then - 1 else 1) * m)
                | None \<Rightarrow> if neg then JMinusInfinity else JInfinity))"

text \<open>
  The two statements of the cloud branch, on the merged object:
  \<^verbatim>\<open>delete uiServerConfiguration.options?.host\<close> and
  \<^verbatim>\<open>uiServerConfiguration.options.port = parseInt(process.env.PORT)\<close>. The first does
  nothing on \<^verbatim>\<open>null\<close> and on a primitive value; the second throws on them.
\<close>

definition cloudOptions :: "platform \<Rightarrow> jsvalue option \<Rightarrow> js_error + jsvalue" where
  "cloudOptions p opts =
     (case opts of
        None \<Rightarrow> Inl TypeError
      | Some v \<Rightarrow> set_prop (delete_prop v ''host'') ''port'' (parseInt (env_PORT p)))"

text \<open>
  \<^verbatim>\<open>merge\<close> copies references: when the document's \<^verbatim>\<open>uiServer\<close> has an \<^verbatim>\<open>options\<close> object,
  the merged \<^verbatim>\<open>options\<close> is that very object, and the cloud branch changes it inside
  the cached document too. \<open>shareOptions ext opts'\<close> writes the changed object back
  where the document holds it.
\<close>

definition shareOptions :: "jsvalue option \<Rightarrow> jsvalue \<Rightarrow> unit action" where
  "shareOptions ext opts' st =
     (case ext of
        None \<Rightarrow> (Inr (), st)
      | Some e \<Rightarrow>
          (case member e ''options'' of
             None \<Rightarrow> (Inr (), st)
           | Some old \<Rightarrow>
               if is_object old then
                 (case set_prop e ''options'' opts' of
                    Inl err \<Rightarrow> (Inr (), st)
                  | Inr e' \<Rightarrow>
                      (case set_prop (configuration st) ''uiServer'' e' of
                         Inl err \<Rightarrow> (Inr (), st)
                       | Inr d' \<Rightarrow> (Inr (), st\<lparr>configuration := d'\<rparr>)))
               else (Inr (), st)))"

text \<open>
  \<^verbatim>\<open>getUIServer\<close> returns the object \<^verbatim>\<open>merge\<close> returned, or the literal of the defaults.
  \<^verbatim>\<open>options\<close> is an own property of it: the defaults have one, and the merge can only
  replace its value.
\<close>

definition getUIServer :: "platform \<Rightarrow> merged_object action" where
  "getUIServer p =
     and_then (configHasOwnProp p ''uiWebSocketServer'') (\<lambda>legacy.
     and_then (if legacy then console_error (logPrefix p) (DeprecatedSection ''uiWebSocketServer'')
               else ok ()) (\<lambda>_.
     and_then (configHasOwnProp p ''uiServer'') (\<lambda>present.
     and_then (if present then configMember p ''uiServer'' else ok None) (\<lambda>ext.
     and_then (if present then lift (just_merge (defaultUIServer p) ext)
               else ok \<lparr>own_properties = defaultUIServer p, replaced_prototype = None\<rparr>)
       (\<lambda>uiServerConfiguration.
     if isCFEnvironment p then
       and_then (lift (cloudOptions p
                   (map_of (own_properties uiServerConfiguration) ''options''))) (\<lambda>opts'.
       and_then (shareOptions ext opts') (\<lambda>_.
       ok (uiServerConfiguration
             \<lparr>own_properties :=
                AList.update ''options'' opts' (own_properties uiServerConfiguration)\<rparr>)))
     else ok uiServerConfiguration)))))"

section \<open>The performance storage section\<close>

definition buildPerformanceUriFilePath :: "platform \<Rightarrow> string \<Rightarrow> string" where
  "buildPerformanceUriFilePath p file = ''file://'' @ path_join p (installParentDir p) file"

definition getDefaultPerformanceStorageUri :: "platform \<Rightarrow> string \<Rightarrow> js_error + string" where
  "getDefaultPerformanceStorageUri p storageType =
     (if storageType = StorageType_JSON_FILE p then
        Inr (buildPerformanceUriFilePath p (DEFAULT_PERFORMANCE_RECORDS_FILENAME p))
      else if storageType = StorageType_SQLITE p then
        Inr (buildPerformanceUriFilePath p (DEFAULT_PERFORMANCE_RECORDS_DB_NAME p @ ''.db''))
      else Inl (Error (''Performance storage URI is mandatory with storage type '' @
                         [CHR 0x27] @ storageType @ [CHR 0x27])))"

definition defaultPerformanceStorage :: "platform \<Rightarrow> string \<Rightarrow> (string \<times> jsvalue) list" where
  "defaultPerformanceStorage p uri =
     [(''enabled'', JBool False),
      (''type'', JStr (StorageType_JSON_FILE p)),
      (''uri'', JStr uri)]"

text \<open>\<^verbatim>\<open>v?.k\<close> on a value that may be \<^verbatim>\<open>undefined\<close>.\<close>

definition opt_member :: "jsvalue option \<Rightarrow> string \<Rightarrow> jsvalue option" where
  "opt_member v k = (case v of None \<Rightarrow> None | Some x \<Rightarrow> member x k)"

definition opt_entries :: "jsvalue option \<Rightarrow> (string \<times> jsvalue) list" where
  "opt_entries v = (case v of None \<Rightarrow> [] | Some x \<Rightarrow> own_entries x)"

text \<open>
  The third spread of the object literal:
  \<^verbatim>\<open>type === StorageType.JSON_FILE && uri && { uri: build(new URL(uri).pathname) }\<close>,
  every operand read through its own \<^verbatim>\<open>Configuration.getConfig()?.performanceStorage\<close>.
  A false or falsy operand spreads nothing.
\<close>

definition rebuiltUri :: "platform \<Rightarrow> (string \<times> jsvalue) list action" where
  "rebuiltUri p =
     and_then (configMember p ''performanceStorage'') (\<lambda>sec.
       if opt_member sec ''type'' = Some (JStr (StorageType_JSON_FILE p)) then
         and_then (configMember p ''performanceStorage'') (\<lambda>sec'.
           case opt_member sec' ''uri'' of
             None \<Rightarrow> ok []
           | Some u \<Rightarrow>
               if truthy u then
                 and_then (configMember p ''performanceStorage'') (\<lambda>sec''.
                   case opt_member sec'' ''uri'' of
                     None \<Rightarrow> raise TypeError
                   | Some u' \<Rightarrow>
                       (case url_pathname p u' of
                          None \<Rightarrow> raise TypeError
                        | Some pathname \<Rightarrow>
                            ok [(''uri'', JStr (buildPerformanceUriFilePath p pathname))]))
               else ok [])
       else ok [])"

definition getPerformanceStorage :: "platform \<Rightarrow> jsvalue action" where
  "getPerformanceStorage p =
     and_then (warnDeprecatedConfigurationKey p ''URI'' (Some ''performanceStorage'')
                 ''Use 'uri' instead'') (\<lambda>_.
     and_then (lift (getDefaultPerformanceStorageUri p (StorageType_JSON_FILE p))) (\<lambda>uri.
     and_then (configHasOwnProp p ''performanceStorage'') (\<lambda>present.
       if present then
         and_then (configMember p ''performanceStorage'') (\<lambda>sec.
         and_then (rebuiltUri p) (\<lambda>rebuilt.
           ok (JObj (assign_entries
                      (assign_entries (defaultPerformanceStorage p uri) (opt_entries sec))
                      rebuilt))))
       else ok (JObj (defaultPerformanceStorage p uri)))))"

section \<open>Station template URLs\<close>

fun forEach :: "('a \<Rightarrow> unit action) \<Rightarrow> 'a list \<Rightarrow> unit action" where
  "forEach f [] = ok ()"
| "forEach f (x # xs) = and_then (f x) (\<lambda>_. forEach f xs)"

definition warnNumberOfStation :: "platform \<Rightarrow> jsvalue \<Rightarrow> unit action" where
  "warnNumberOfStation p stationTemplateUrl =
     and_then (lift (get_prop stationTemplateUrl ''numberOfStation'')) (\<lambda>n.
       if \<not> isUndefined n then
         console_error (logPrefix p)
           (DeprecatedNumberOfStation (member stationTemplateUrl ''file''))
       else ok ())"

text \<open>
  \<^verbatim>\<open>target.k = x\<close> where \<open>target\<close> is what \<^verbatim>\<open>Configuration.getConfig()\<close> returned, that is
  the object the static field refers to: the cached document changes. A property set
  to \<^verbatim>\<open>undefined\<close> reads as an absent one and is kept as absent.
\<close>

definition assignConfig :: "jsvalue \<Rightarrow> string \<Rightarrow> jsvalue option \<Rightarrow> unit action" where
  "assignConfig target k x st =
     (case x of
        None \<Rightarrow>
          (if is_object target then (Inr (), st\<lparr>configuration := delete_prop target k\<rparr>)
           else (Inl TypeError, st))
      | Some v \<Rightarrow>
          (case set_prop target k v of
             Inl e \<Rightarrow> (Inl e, st)
           | Inr t' \<Rightarrow> (Inr (), st\<lparr>configuration := t'\<rparr>)))"

text \<open>
  \<^verbatim>\<open>urls.forEach(...)\<close>: only an array has the method; on \<^verbatim>\<open>undefined\<close>, \<^verbatim>\<open>null\<close> and every
  other value of a document the call throws.
\<close>

definition getStationTemplateUrls :: "platform \<Rightarrow> jsvalue option action" where
  "getStationTemplateUrls p =
     and_then (warnDeprecatedConfigurationKey p ''stationTemplateURLs'' None
                 ''Use 'stationTemplateUrls' instead'') (\<lambda>_.
     and_then (configProp p ''stationTemplateURLs'') (\<lambda>legacy.
     and_then (if \<not> isUndefined legacy then
                 and_then (getConfig p) (\<lambda>target.
                 and_then (configProp p ''stationTemplateURLs'') (\<lambda>x.
                   assignConfig target ''stationTemplateUrls'' x))
               else ok ()) (\<lambda>_.
     and_then (configProp p ''stationTemplateUrls'') (\<lambda>urls.
     and_then (case urls of
                 Some (JArr xs ps) \<Rightarrow> forEach (warnNumberOfStation p) xs
               | _ \<Rightarrow> raise TypeError) (\<lambda>_.
     configMember p ''stationTemplateUrls'')))))"

definition getSupervisionUrls :: "platform \<Rightarrow> jsvalue option action" where
  "getSupervisionUrls p =
     and_then (warnDeprecatedConfigurationKey p ''supervisionURLs'' None
                 ''Use 'supervisionUrls' instead'') (\<lambda>_.
     and_then (configProp p ''supervisionURLs'') (\<lambda>legacy.
     and_then (if \<not> isUndefined legacy then
                 and_then (getConfig p) (\<lambda>target.
                 and_then (configProp p ''supervisionURLs'') (\<lambda>x.
                   assignConfig target ''supervisionUrls'' x))
               else ok ()) (\<lambda>_.
     configMember p ''supervisionUrls'')))"

section \<open>The worker section\<close>

text \<open>
  An object literal whose property values may be \<^verbatim>\<open>undefined\<close>: such a property reads as
  an absent one and is kept as absent.
\<close>

definition object_literal :: "(string \<times> jsvalue option) list \<Rightarrow> (string \<times> jsvalue) list" where
  "object_literal props =
     concat (map (\<lambda>(k, v). case v of None \<Rightarrow> [] | Some x \<Rightarrow> [(k, x)]) props)"

text \<open>\<^verbatim>\<open>v ?? d\<close>\<close>

definition nullish_or :: "jsvalue option \<Rightarrow> jsvalue \<Rightarrow> jsvalue" where
  "nullish_or v d = (case v of None \<Rightarrow> d | Some x \<Rightarrow> if x = JNull then d else x)"

definition deprecatedWorkerKeys :: "(string \<times> string) list" where
  "deprecatedWorkerKeys =
     [(''useWorkerPool'',
         ''Use 'worker' section to define the type of worker process model instead''),
      (''workerProcess'',
         ''Use 'worker' section to define the type of worker process model instead''),
      (''workerStartDelay'',
         ''Use 'worker' section to define the worker start delay instead''),
      (''chargingStationsPerWorker'',
         ''Use 'worker' section to define the number of element(s) per worker instead''),
      (''elementStartDelay'',
         ''Use 'worker' section to define the worker's element start delay instead''),
      (''workerPoolMinSize'',
         ''Use 'worker' section to define the worker pool minimum size instead''),
      (''workerPoolSize;'',
         ''Use 'worker' section to define the worker pool maximum size instead''),
      (''workerPoolMaxSize;'',
         ''Use 'worker' section to define the worker pool maximum size instead''),
      (''workerPoolStrategy;'',
         ''Use 'worker' section to define the worker pool strategy instead'')]"

definition getWorker :: "platform \<Rightarrow> jsvalue action" where
  "getWorker p =
     and_then (forEach (\<lambda>(key, msg). warnDeprecatedConfigurationKey p key None msg)
                 deprecatedWorkerKeys) (\<lambda>_.
     and_then (configOrDefault p ''workerProcess''
                 (JStr (WorkerProcessType_workerSet p))) (\<lambda>processType.
     and_then (configOrDefault p ''workerStartDelay''
                 (DEFAULT_WORKER_START_DELAY p)) (\<lambda>startDelay.
     and_then (configOrDefault p ''chargingStationsPerWorker''
                 (DEFAULT_ELEMENTS_PER_WORKER p)) (\<lambda>elementsPerWorker.
     and_then (configOrDefault p ''elementStartDelay''
                 (DEFAULT_ELEMENT_START_DELAY p)) (\<lambda>elementStartDelay.
     and_then (configOrDefault p ''workerPoolMinSize''
                 (DEFAULT_POOL_MIN_SIZE p)) (\<lambda>poolMinSize.
     and_then (configOrDefault p ''workerPoolMaxSize''
                 (DEFAULT_POOL_MAX_SIZE p)) (\<lambda>poolMaxSize.
     and_then (configMember p ''workerPoolStrategy'') (\<lambda>strategy.
     let workerConfiguration =
           object_literal
             [(''processType'', processType),
              (''startDelay'', startDelay),
              (''elementsPerWorker'', elementsPerWorker),
              (''elementStartDelay'', elementStartDelay),
              (''poolMinSize'', poolMinSize),
              (''poolMaxSize'', poolMaxSize),
              (''poolStrategy'',
                 Some (nullish_or strategy (JStr (WorkerChoiceStrategies_ROUND_ROBIN p))))]
     in
     and_then (configHasOwnProp p ''worker'') (\<lambda>present.
       if present then
         and_then (configMember p ''worker'') (\<lambda>w.
           ok (JObj (assign_entries workerConfiguration (opt_entries w))))
       else ok (JObj workerConfiguration))))))))))"

text \<open>
  \<^verbatim>\<open>[dynamicPool, staticPool].includes(getWorker().processType)\<close> and
  \<^verbatim>\<open>getWorker().processType === dynamicPool\<close>: the members of the enumeration are
  strings, on which both comparisons are equality.
\<close>

definition workerPoolInUse :: "platform \<Rightarrow> bool action" where
  "workerPoolInUse p =
     and_then (getWorker p) (\<lambda>w.
       ok (member w ''processType''
             \<in> set [Some (JStr (WorkerProcessType_dynamicPool p)),
                     Some (JStr (WorkerProcessType_staticPool p))]))"

definition workerDynamicPoolInUse :: "platform \<Rightarrow> bool action" where
  "workerDynamicPoolInUse p =
     and_then (getWorker p) (\<lambda>w.
       ok (member w ''processType'' = Some (JStr (WorkerProcessType_dynamicPool p))))"

section \<open>The reload callback and the watch listener\<close>

definition setConfigurationChangeCallback :: "nat \<Rightarrow> store \<Rightarrow> store" where
  "setConfigurationChangeCallback cb st = st\<lparr>configurationChangeCallback := Some cb\<rparr>"

text \<open>
  What a rejected promise or a \<^verbatim>\<open>throw\<close> carries: any value, or an error object. A call
  of the callback changes the store and ends fulfilled, rejected, or by throwing before
  it returns its promise.
\<close>

datatype reason = Value jsvalue | Exception js_error

datatype outcome = Fulfilled | Rejected reason | Threw reason

text \<open>\<^verbatim>\<open>typeof error === 'string' ? new Error(error) : error\<close>\<close>

fun wrap_reason :: "reason \<Rightarrow> reason" where
  "wrap_reason (Value (JStr s)) = Exception (Error s)"
| "wrap_reason r = r"

text \<open>
  The listener given to \<^verbatim>\<open>fs.watch\<close>. \<open>invoke cb\<close> is what calling the registered callback
  \<open>cb\<close> does. The result is what the listener or the handler of \<^verbatim>\<open>.catch\<close> throws, if
  anything; the handler runs once the promise is settled, and the model takes the
  callback to its outcome in one step. \<^verbatim>\<open>filename?.trim().length > 0\<close> is false for
  \<^verbatim>\<open>null\<close>.
\<close>

definition watchListener ::
  "(nat \<Rightarrow> store \<Rightarrow> outcome \<times> store) \<Rightarrow> string \<Rightarrow> string option \<Rightarrow> store \<Rightarrow>
     reason option \<times> store" where
  "watchListener invoke event filename st =
     (if (case filename of None \<Rightarrow> False | Some f \<Rightarrow> length (trim f) > 0) \<and> event = ''change''
      then
        let st1 = st\<lparr>configuration := JNull\<rparr> in
        (case configurationChangeCallback st1 of
           None \<Rightarrow> (None, st1)
         | Some cb \<Rightarrow>
             (case invoke cb st1 of
                (Fulfilled, st2) \<Rightarrow> (None, st2)
              | (Rejected r, st2) \<Rightarrow> (Some (wrap_reason r), st2)
              | (Threw r, st2) \<Rightarrow> (Some r, st2)))
      else (None, st))"

section \<open>Runs of the process\<close>

text \<open>
  What can happen to the static fields during the life of the process: a call of a
  public method on some platform state, a registration of the callback, and an event
  delivered to the listener (only once \<^verbatim>\<open>fs.watch\<close> has subscribed it). What the callback
  does with the class it does through the public methods, which are steps of their own.
\<close>

datatype api =
    GetUIServer
  | GetPerformanceStorage
  | GetStationTemplateUrls
  | GetWorker
  | WorkerPoolInUse
  | WorkerDynamicPoolInUse
  | GetLogMaxFiles
  | GetLogMaxSize
  | GetLogStatisticsInterval
  | GetAutoReconnectMaxRetries
  | GetLogConsole
  | GetLogFormat
  | GetLogRotate
  | GetLogLevel
  | GetLogFile
  | GetLogErrorFile
  | GetSupervisionUrls
  | GetSupervisionUrlDistribution

datatype step =
    Call platform api
  | SetCallback nat
  | FileEvent string "string option" outcome

fun call :: "platform \<Rightarrow> api \<Rightarrow> store \<Rightarrow> store" where
  "call p GetUIServer st = snd (getUIServer p st)"
| "call p GetPerformanceStorage st = snd (getPerformanceStorage p st)"
| "call p GetStationTemplateUrls st = snd (getStationTemplateUrls p st)"
| "call p GetWorker st = snd (getWorker p st)"
| "call p WorkerPoolInUse st = snd (workerPoolInUse p st)"
| "call p WorkerDynamicPoolInUse st = snd (workerDynamicPoolInUse p st)"
| "call p GetLogMaxFiles st = snd (getLogMaxFiles p st)"
| "call p GetLogMaxSize st = snd (getLogMaxSize p st)"
| "call p GetLogStatisticsInterval st = snd (getLogStatisticsInterval p st)"
| "call p GetAutoReconnectMaxRetries st = snd (getAutoReconnectMaxRetries p st)"
| "call p GetLogConsole st = snd (getLogConsole p st)"
| "call p GetLogFormat st = snd (getLogFormat p st)"
| "call p GetLogRotate st = snd (getLogRotate p st)"
| "call p GetLogLevel st = snd (getLogLevel p st)"
| "call p GetLogFile st = snd (getLogFile p st)"
| "call p GetLogErrorFile st = snd (getLogErrorFile p st)"
| "call p GetSupervisionUrls st = snd (getSupervisionUrls p st)"
| "call p GetSupervisionUrlDistribution st = snd (getSupervisionUrlDistribution p st)"

fun exec :: "step \<Rightarrow> store \<Rightarrow> store" where
  "exec (Call p a) st = call p a st"
| "exec (SetCallback cb) st = setConfigurationChangeCallback cb st"
| "exec (FileEvent event filename out) st =
     (if fs_watches st = 0 then st
      else snd (watchListener (\<lambda>cb s. (out, s)) event filename st))"

definition run_steps :: "step list \<Rightarrow> store" where
  "run_steps steps = fold exec steps initial_store"

section \<open>A platform for the worked examples\<close>

text \<open>
  The simulator installed under \<^verbatim>\<open>/opt/simulator\<close> with its bundle in \<^verbatim>\<open>dist\<close>, outside a
  cloud platform, with the values the constants have in the repository. \<open>example_join\<close>
  is \<^verbatim>\<open>path.join\<close> on the paths of the examples (no \<^verbatim>\<open>.\<close>, \<^verbatim>\<open>..\<close> or doubled separator);
  \<open>example_pathname\<close> is \<^verbatim>\<open>new URL(v).pathname\<close> on the texts of the examples.
\<close>

definition example_join :: "string \<Rightarrow> string \<Rightarrow> string" where
  "example_join a b = (if take 1 b = ''/'' then a @ b else a @ ''/'' @ b)"

definition example_pathname :: "jsvalue \<Rightarrow> string option" where
  "example_pathname v =
     (if v = JStr ''file:///anywhere/data.json'' then Some ''/anywhere/data.json''
      else if v = JStr ''https://example.org/anywhere/data.json'' then Some ''/anywhere/data.json''
      else None)"

definition example_platform :: "string option + jsvalue \<Rightarrow> platform" where
  "example_platform file =
     \<lparr>configurationFile = ''/opt/simulator/dist/assets/config.json'',
      readConfigurationFile = file,
      watchConfigurationFile = None,
      dateNow = ''11/2/2026, 9:00:00 AM'',
      isCFEnvironment = False,
      env_PORT = None,
      url_pathname = example_pathname,
      installParentDir = ''/opt/simulator'',
      path_join = example_join,
      FileType_Configuration = ''Configuration'',
      DEFAULT_UI_SERVER_HOST = JStr ''localhost'',
      DEFAULT_UI_SERVER_PORT = JNum 8080,
      ApplicationProtocol_WS = ''ws'',
      StorageType_JSON_FILE = ''jsonfile'',
      StorageType_SQLITE = ''sqlite'',
      DEFAULT_PERFORMANCE_RECORDS_FILENAME = ''performanceRecords.json'',
      DEFAULT_PERFORMANCE_RECORDS_DB_NAME = ''e-mobility-charging-stations-simulator'',
      WorkerProcessType_workerSet = ''workerSet'',
      WorkerProcessType_staticPool = ''staticPool'',
      WorkerProcessType_dynamicPool = ''dynamicPool'',
      DEFAULT_WORKER_START_DELAY = JNum 500,
      DEFAULT_ELEMENTS_PER_WORKER = JNum 1,
      DEFAULT_ELEMENT_START_DELAY = JNum 0,
      DEFAULT_POOL_MIN_SIZE = JNum 4,
      DEFAULT_POOL_MAX_SIZE = JNum 16,
      WorkerChoiceStrategies_ROUND_ROBIN = ''ROUND_ROBIN'',
      DEFAULT_LOG_STATISTICS_INTERVAL = JNum 60,
      SupervisionUrlDistribution_ROUND_ROBIN = ''round-robin''\<rparr>"

text \<open>The same installation on a cloud platform that sets \<^verbatim>\<open>PORT\<close>.\<close>

definition cloud_platform :: "string option + jsvalue \<Rightarrow> string \<Rightarrow> platform" where
  "cloud_platform file port =
     (example_platform file)\<lparr>isCFEnvironment := True, env_PORT := Some port\<rparr>"

section \<open>Proof devices\<close>

text \<open>
  The document a call of \<^verbatim>\<open>getConfig\<close> returns from a store: the cached one when it is
  truthy, else what the file holds, else (the load fails) the falsy cached value.
\<close>

definition seen :: "platform \<Rightarrow> store \<Rightarrow> jsvalue" where
  "seen p st =
     (if truthy (configuration st) then configuration st
      else case readConfigurationFile p of Inr v \<Rightarrow> v | Inl code \<Rightarrow> configuration st)"

text \<open>An action that leaves the document every later call sees as it is.\<close>

definition reads :: "platform \<Rightarrow> 'a action \<Rightarrow> bool" where
  "reads p m = (\<forall>st. seen p (snd (m st)) = seen p st)"

text \<open>
  How a step may change the watcher: none is created, or the first one is, and an
  existing one stays. \<open>keeps m\<close>: the action \<open>m\<close> changes the watcher only so.
\<close>

definition watcher_kept :: "store \<Rightarrow> store \<Rightarrow> bool" where
  "watcher_kept st st' =
     (if configurationFileWatcher st = None then
        (configurationFileWatcher st' = None \<and> fs_watches st' = fs_watches st) \<or>
        (configurationFileWatcher st' = Some (fs_watches st) \<and>
         fs_watches st' = Suc (fs_watches st))
      else configurationFileWatcher st' = configurationFileWatcher st \<and>
           fs_watches st' = fs_watches st)"

definition keeps :: "'a action \<Rightarrow> bool" where
  "keeps m = (\<forall>st. watcher_kept st (snd (m st)))"

definition watcher_inv :: "store \<Rightarrow> bool" where
  "watcher_inv st =
     ((configurationFileWatcher st = None \<and> fs_watches st = 0) \<or>
      (configurationFileWatcher st = Some 0 \<and> fs_watches st = 1))"

text \<open>A decimal digit, for the texts \<open>string_of_nat\<close> produces.\<close>

definition decimal :: "char \<Rightarrow> bool" where
  "decimal c = (48 \<le> (of_char c :: nat) \<and> (of_char c :: nat) \<le> 57)"

section \<open>Values of the basic actions\<close>

lemma fst_and_then:
  "fst (and_then m f st) =
     (case fst (m st) of Inl e \<Rightarrow> Inl e | Inr x \<Rightarrow> fst (f x (snd (m st))))"
  by (simp add: and_then_def split: prod.splits sum.splits)

lemma getConfig_fst: "fst (getConfig p st) = Inr (seen p st)"
  by (auto simp: getConfig_def seen_def handleFileException_def
        getConfigurationFileWatcher_def Let_def split: sum.splits option.splits)

lemma getConfig_configuration: "configuration (snd (getConfig p st)) = seen p st"
  by (auto simp: getConfig_def seen_def handleFileException_def
        getConfigurationFileWatcher_def Let_def split: sum.splits option.splits)

lemma getConfig_cached:
  "truthy (configuration st) \<Longrightarrow> getConfig p st = (Inr (configuration st), st)"
  by (simp add: getConfig_def)

lemma seen_of_getConfig: "fst (getConfig p st) = Inr d \<Longrightarrow> seen p st = d"
  by (simp add: getConfig_fst)

lemma reads_seen: "reads p m \<Longrightarrow> seen p (snd (m st)) = seen p st"
  by (simp add: reads_def)

lemma reads_ok: "reads p (ok x)"
  by (simp add: reads_def ok_def)

lemma reads_raise: "reads p (raise e)"
  by (simp add: reads_def raise_def)

lemma reads_lift: "reads p (lift r)"
  by (simp add: reads_def lift_def)

lemma reads_console_error: "reads p (console_error pre x)"
  by (auto simp: reads_def console_error_def seen_def split: sum.splits)

lemma reads_getConfig: "reads p (getConfig p)"
  by (auto simp: reads_def getConfig_def seen_def handleFileException_def
        getConfigurationFileWatcher_def Let_def split: sum.splits option.splits)

lemma reads_and_then: "reads p m \<Longrightarrow> (\<And>x. reads p (f x)) \<Longrightarrow> reads p (and_then m f)"
  by (auto simp: reads_def and_then_def split: prod.splits sum.splits) (metis snd_conv)+

lemmas reads_intros =
  reads_ok reads_raise reads_lift reads_console_error reads_getConfig reads_and_then

lemma reads_configHasOwnProp: "reads p (configHasOwnProp p k)"
  unfolding configHasOwnProp_def by (intro reads_intros)

lemma reads_configMember: "reads p (configMember p k)"
  unfolding configMember_def by (intro reads_intros)

lemma reads_configProp: "reads p (configProp p k)"
  unfolding configProp_def by (intro reads_intros)

lemma fst_ok: "fst (ok x st) = Inr x"
  by (simp add: ok_def)

lemma fst_raise: "fst (raise e st) = Inl e"
  by (simp add: raise_def)

lemma fst_lift: "fst (lift r st) = r"
  by (simp add: lift_def)

lemma fst_console_error: "fst (console_error pre x st) = Inr ()"
  by (simp add: console_error_def)

lemma fst_configHasOwnProp: "fst (configHasOwnProp p k st) = Inr (hasOwnProp (seen p st) k)"
  by (simp add: configHasOwnProp_def fst_and_then getConfig_fst fst_ok)

lemma fst_configMember: "fst (configMember p k st) = Inr (member (seen p st) k)"
  by (simp add: configMember_def fst_and_then getConfig_fst fst_ok)

lemma fst_configProp: "fst (configProp p k st) = get_prop (seen p st) k"
  by (simp add: configProp_def fst_and_then getConfig_fst fst_lift)

lemmas reads_simps =
  reads_seen[OF reads_configHasOwnProp] reads_seen[OF reads_configMember]
  reads_seen[OF reads_configProp] reads_seen[OF reads_getConfig]
  reads_seen[OF reads_console_error] reads_seen[OF reads_ok] reads_seen[OF reads_lift]
  reads_seen[OF reads_raise]

lemmas fst_simps =
  fst_and_then fst_ok fst_raise fst_lift fst_console_error fst_configHasOwnProp
  fst_configMember fst_configProp getConfig_fst

lemma reads_sectionHoldsKey: "reads p (sectionHoldsKey p sn key)"
  unfolding sectionHoldsKey_def
  by (auto intro!: reads_intros reads_configProp split: option.splits)

lemma fst_sectionHoldsKey_None: "fst (sectionHoldsKey p None key st) = Inr False"
  by (simp add: sectionHoldsKey_def fst_simps)

lemma fst_sectionHoldsKey_Some:
  "sn \<noteq> [] \<Longrightarrow> fst (sectionHoldsKey p (Some sn) key st) =
     (if seen p st = JNull \<or> member (seen p st) sn = Some JNull then Inl TypeError
      else Inr (opt_member (member (seen p st) sn) key \<noteq> None))"
  by (auto simp add: sectionHoldsKey_def fst_simps reads_simps get_prop_def isUndefined_def
        opt_member_def split: option.splits)

lemma reads_warn: "reads p (warnDeprecatedConfigurationKey p key sn msg)"
  unfolding warnDeprecatedConfigurationKey_def
  by (auto intro!: reads_intros reads_configProp reads_sectionHoldsKey)

lemma fst_warn_key:
  "fst (warnDeprecatedConfigurationKey p key None msg st) =
     (if seen p st = JNull then Inl TypeError else Inr ())"
  by (simp add: warnDeprecatedConfigurationKey_def fst_simps fst_sectionHoldsKey_None
        reads_simps reads_seen[OF reads_sectionHoldsKey] get_prop_def)

lemma fst_warn_section:
  "sn \<noteq> [] \<Longrightarrow> fst (warnDeprecatedConfigurationKey p key (Some sn) msg st) =
     (if seen p st = JNull \<or> member (seen p st) sn = Some JNull then Inl TypeError
      else Inr ())"
  by (simp add: warnDeprecatedConfigurationKey_def fst_simps fst_sectionHoldsKey_Some
        reads_simps reads_seen[OF reads_sectionHoldsKey] get_prop_def)

lemma map_of_assign_entries: "map_of (assign_entries tgt src) = map_of tgt ++ map_of src"
proof -
  have "assign_entries tgt src = AList.merge tgt src"
    by (simp add: assign_entries_def AList.merge_def)
  then show ?thesis by (simp add: merge_conv')
qed

lemma getConfig_pair:
  assumes "fst (getConfig p st) = Inr d"
  shows "getConfig p st = (Inr d, snd (getConfig p st))"
    and "configuration (snd (getConfig p st)) = d"
  using assms by (simp_all add: prod_eq_iff getConfig_configuration getConfig_fst)

lemma reads_forEach: "(\<And>x. reads p (f x)) \<Longrightarrow> reads p (forEach f xs)"
  by (induction xs) (auto intro: reads_ok reads_and_then)

lemma reads_configOrDefault: "reads p (configOrDefault p k d)"
  unfolding configOrDefault_def
  by (auto intro!: reads_intros reads_configHasOwnProp reads_configMember)

lemma fst_configOrDefault:
  "fst (configOrDefault p k d st) =
     Inr (if hasOwnProp (seen p st) k then member (seen p st) k else Some d)"
  by (simp add: configOrDefault_def fst_simps reads_simps)

section \<open>The watcher under every action\<close>

lemma watcher_kept_refl: "watcher_kept st st"
  by (simp add: watcher_kept_def)

lemma watcher_kept_trans: "watcher_kept a b \<Longrightarrow> watcher_kept b c \<Longrightarrow> watcher_kept a c"
  by (auto simp: watcher_kept_def split: if_splits)

lemma keeps_ok: "keeps (ok x)"
  by (simp add: keeps_def ok_def watcher_kept_refl)

lemma keeps_raise: "keeps (raise e)"
  by (simp add: keeps_def raise_def watcher_kept_refl)

lemma keeps_lift: "keeps (lift r)"
  by (simp add: keeps_def lift_def watcher_kept_refl)

lemma keeps_console_error: "keeps (console_error pre x)"
  by (simp add: keeps_def console_error_def watcher_kept_def)

lemma keeps_getConfig: "keeps (getConfig p)"
  by (auto simp: keeps_def getConfig_def watcher_kept_def handleFileException_def
        getConfigurationFileWatcher_def Let_def split: sum.splits option.splits)

lemma keeps_and_then: "keeps m \<Longrightarrow> (\<And>x. keeps (f x)) \<Longrightarrow> keeps (and_then m f)"
  unfolding keeps_def
proof (intro allI)
  fix st
  assume m: "\<forall>st. watcher_kept st (snd (m st))"
    and f: "\<And>x. \<forall>st. watcher_kept st (snd (f x st))"
  obtain r st' where r: "m st = (r, st')"
    by (cases "m st")
  from m r have k: "watcher_kept st st'"
    by (metis snd_conv)
  show "watcher_kept st (snd (and_then m f st))"
  proof (cases r)
    case (Inl e)
    with r k show ?thesis
      by (simp add: and_then_def)
  next
    case (Inr x)
    with r have "and_then m f st = f x st'"
      by (simp add: and_then_def)
    with f[of x] k show ?thesis
      by (auto intro: watcher_kept_trans)
  qed
qed

lemma keeps_assignConfig: "keeps (assignConfig target k x)"
  by (auto simp: keeps_def assignConfig_def watcher_kept_def split: option.splits sum.splits)

lemma keeps_shareOptions: "keeps (shareOptions ext v)"
  by (auto simp: keeps_def shareOptions_def watcher_kept_def split: option.splits sum.splits)

lemma keeps_forEach: "(\<And>x. keeps (f x)) \<Longrightarrow> keeps (forEach f xs)"
  by (induction xs) (auto intro: keeps_ok keeps_and_then)

lemmas keeps_intros =
  keeps_ok keeps_raise keeps_lift keeps_console_error keeps_getConfig keeps_and_then
  keeps_assignConfig keeps_shareOptions keeps_forEach

lemma keeps_configHasOwnProp: "keeps (configHasOwnProp p k)"
  unfolding configHasOwnProp_def by (intro keeps_intros)

lemma keeps_configMember: "keeps (configMember p k)"
  unfolding configMember_def by (intro keeps_intros)

lemma keeps_configProp: "keeps (configProp p k)"
  unfolding configProp_def by (intro keeps_intros)

lemma keeps_sectionHoldsKey: "keeps (sectionHoldsKey p sn key)"
  unfolding sectionHoldsKey_def
  by (auto intro!: keeps_intros keeps_configProp split: option.splits)

lemma keeps_warn: "keeps (warnDeprecatedConfigurationKey p key sn msg)"
  unfolding warnDeprecatedConfigurationKey_def
  by (auto intro!: keeps_intros keeps_configProp keeps_sectionHoldsKey)

lemma keeps_configOrDefault: "keeps (configOrDefault p k d)"
  unfolding configOrDefault_def
  by (auto intro!: keeps_intros keeps_configHasOwnProp keeps_configMember)

lemma keeps_rebuiltUri: "keeps (rebuiltUri p)"
  unfolding rebuiltUri_def
  by (auto intro!: keeps_intros keeps_configMember split: option.splits)

lemma keeps_warnNumberOfStation: "keeps (warnNumberOfStation p x)"
  unfolding warnNumberOfStation_def
  by (auto intro!: keeps_intros)

lemmas keeps_derived =
  keeps_configHasOwnProp keeps_configMember keeps_configProp keeps_sectionHoldsKey
  keeps_warn keeps_configOrDefault keeps_rebuiltUri keeps_warnNumberOfStation

lemma keeps_getUIServer: "keeps (getUIServer p)"
  unfolding getUIServer_def
  by (auto intro!: keeps_intros keeps_derived)

lemma keeps_getPerformanceStorage: "keeps (getPerformanceStorage p)"
  unfolding getPerformanceStorage_def
  by (auto intro!: keeps_intros keeps_derived)

lemma keeps_getStationTemplateUrls: "keeps (getStationTemplateUrls p)"
  unfolding getStationTemplateUrls_def
  by (auto intro!: keeps_intros keeps_derived split: option.splits jsvalue.splits)

lemma keeps_getSupervisionUrls: "keeps (getSupervisionUrls p)"
  unfolding getSupervisionUrls_def
  by (auto intro!: keeps_intros keeps_derived)

lemma keeps_getWorker: "keeps (getWorker p)"
  unfolding getWorker_def Let_def
  by (auto intro!: keeps_intros keeps_derived)

lemma keeps_workerPoolInUse: "keeps (workerPoolInUse p)"
  unfolding workerPoolInUse_def by (intro keeps_intros keeps_getWorker)

lemma keeps_workerDynamicPoolInUse: "keeps (workerDynamicPoolInUse p)"
  unfolding workerDynamicPoolInUse_def by (intro keeps_intros keeps_getWorker)

lemma keeps_getLogMaxFiles: "keeps (getLogMaxFiles p)"
  unfolding getLogMaxFiles_def by (auto intro!: keeps_intros keeps_derived)

lemma keeps_getLogMaxSize: "keeps (getLogMaxSize p)"
  unfolding getLogMaxSize_def by (auto intro!: keeps_intros keeps_derived)

lemma keeps_getLogStatisticsInterval: "keeps (getLogStatisticsInterval p)"
  unfolding getLogStatisticsInterval_def by (intro keeps_intros keeps_derived)

lemma keeps_getAutoReconnectMaxRetries: "keeps (getAutoReconnectMaxRetries p)"
  unfolding getAutoReconnectMaxRetries_def by (auto intro!: keeps_intros keeps_derived)

lemma keeps_getLogConsole: "keeps (getLogConsole p)"
  unfolding getLogConsole_def by (intro keeps_intros keeps_derived)

lemma keeps_getLogFormat: "keeps (getLogFormat p)"
  unfolding getLogFormat_def by (rule keeps_configOrDefault)

lemma keeps_getLogRotate: "keeps (getLogRotate p)"
  unfolding getLogRotate_def by (rule keeps_configOrDefault)

lemma keeps_getLogLevel: "keeps (getLogLevel p)"
  unfolding getLogLevel_def
  by (auto intro!: keeps_intros keeps_derived split: option.splits jsvalue.splits)

lemma keeps_getLogFile: "keeps (getLogFile p)"
  unfolding getLogFile_def by (rule keeps_configOrDefault)

lemma keeps_getLogErrorFile: "keeps (getLogErrorFile p)"
  unfolding getLogErrorFile_def by (intro keeps_intros keeps_derived)

lemma keeps_getSupervisionUrlDistribution: "keeps (getSupervisionUrlDistribution p)"
  unfolding getSupervisionUrlDistribution_def by (intro keeps_intros keeps_derived)

lemma call_kept: "watcher_kept st (call p a st)"
proof (cases a)
  case GetUIServer
  then show ?thesis using keeps_getUIServer[of p] by (simp add: keeps_def)
next
  case GetPerformanceStorage
  then show ?thesis using keeps_getPerformanceStorage[of p] by (simp add: keeps_def)
next
  case GetStationTemplateUrls
  then show ?thesis using keeps_getStationTemplateUrls[of p] by (simp add: keeps_def)
next
  case GetWorker
  then show ?thesis using keeps_getWorker[of p] by (simp add: keeps_def)
next
  case WorkerPoolInUse
  then show ?thesis using keeps_workerPoolInUse[of p] by (simp add: keeps_def)
next
  case WorkerDynamicPoolInUse
  then show ?thesis using keeps_workerDynamicPoolInUse[of p] by (simp add: keeps_def)
next
  case GetLogMaxFiles
  then show ?thesis using keeps_getLogMaxFiles[of p] by (simp add: keeps_def)
next
  case GetLogMaxSize
  then show ?thesis using keeps_getLogMaxSize[of p] by (simp add: keeps_def)
next
  case GetLogStatisticsInterval
  then show ?thesis using keeps_getLogStatisticsInterval[of p] by (simp add: keeps_def)
next
  case GetAutoReconnectMaxRetries
  then show ?thesis using keeps_getAutoReconnectMaxRetries[of p] by (simp add: keeps_def)
next
  case GetLogConsole
  then show ?thesis using keeps_getLogConsole[of p] by (simp add: keeps_def)
next
  case GetLogFormat
  then show ?thesis using keeps_getLogFormat[of p] by (simp add: keeps_def)
next
  case GetLogRotate
  then show ?thesis using keeps_getLogRotate[of p] by (simp add: keeps_def)
next
  case GetLogLevel
  then show ?thesis using keeps_getLogLevel[of p] by (simp add: keeps_def)
next
  case GetLogFile
  then show ?thesis using keeps_getLogFile[of p] by (simp add: keeps_def)
next
  case GetLogErrorFile
  then show ?thesis using keeps_getLogErrorFile[of p] by (simp add: keeps_def)
next
  case GetSupervisionUrls
  then show ?thesis using keeps_getSupervisionUrls[of p] by (simp add: keeps_def)
next
  case GetSupervisionUrlDistribution
  then show ?thesis using keeps_getSupervisionUrlDistribution[of p] by (simp add: keeps_def)
qed

lemma exec_kept: "watcher_kept st (exec s st)"
proof (cases s)
  case (Call p a)
  then show ?thesis
    by (simp add: call_kept)
next
  case (SetCallback cb)
  then show ?thesis
    by (simp add: setConfigurationChangeCallback_def watcher_kept_def)
next
  case (FileEvent ev fn out)
  then show ?thesis
    by (cases out) (auto simp: watchListener_def watcher_kept_def Let_def split: option.splits)
qed

lemma watcher_inv_kept: "watcher_inv st \<Longrightarrow> watcher_kept st st' \<Longrightarrow> watcher_inv st'"
  by (auto simp: watcher_inv_def watcher_kept_def split: if_splits)

lemma fold_exec_inv: "watcher_inv st \<Longrightarrow> watcher_inv (fold exec steps st)"
  by (induction steps arbitrary: st) (auto intro: watcher_inv_kept exec_kept)

lemma run_steps_inv: "watcher_inv (run_steps steps)"
  unfolding run_steps_def
  by (rule fold_exec_inv) (simp add: watcher_inv_def initial_store_def)

lemma getConfig_fs_watches:
  "fs_watches (snd (getConfig p st)) =
     (if \<not> truthy (configuration st) \<and> configurationFileWatcher st = None \<and>
         watchConfigurationFile p = None
      then Suc (fs_watches st) else fs_watches st)"
  by (auto simp: getConfig_def handleFileException_def getConfigurationFileWatcher_def Let_def
        split: sum.splits option.splits)

section \<open>C1: the UI server section is merged one level deep\<close>

text \<open>
  In the theorems below \<open>fst (getConfig p st) = Inr d\<close> says that \<open>d\<close> is the document
  the class works with when a method is called in the store \<open>st\<close> on the platform \<open>p\<close>:
  the cached one, or the one the call loads.
\<close>

text \<open>
  Claim C1 says the merge of the document's \<^verbatim>\<open>uiServer\<close> over the defaults is deep: a
  document that gives only \<^verbatim>\<open>options.host\<close> keeps the default \<^verbatim>\<open>options.port\<close>. The code
  calls \<^verbatim>\<open>merge\<close> of \<^verbatim>\<open>just-merge\<close>, which assigns the top-level properties. On the
  document \<^verbatim>\<open>{"uiServer": {"options": {"host": "x"}}}\<close> the returned \<^verbatim>\<open>options\<close> is the
  document's object: it has the host and no port.
\<close>

theorem uiServer_default_port_not_retained:
  "fst (getUIServer
         (example_platform
            (Inr (JObj [(''uiServer'', JObj [(''options'', JObj [(''host'', JStr ''x'')])])])))
         initial_store)
     = Inr \<lparr>own_properties =
               [(''enabled'', JBool False), (''type'', JStr ''ws''),
                (''options'', JObj [(''host'', JStr ''x'')])],
             replaced_prototype = None\<rparr>
   \<and> member (JObj [(''host'', JStr ''x'')]) ''port'' = None"
  by code_simp

text \<open>
  Claim C1, amended: outside a cloud platform, for a document whose \<^verbatim>\<open>uiServer\<close> is an
  object, \<^verbatim>\<open>getUIServer\<close> returns the defaults overridden by the top-level properties
  of that object other than \<^verbatim>\<open>__proto__\<close>: a property the document gives replaces the
  default whole (so \<^verbatim>\<open>options\<close> is the document's object, with the fields it has and no
  others), a top-level property it omits keeps its default. A key \<^verbatim>\<open>__proto__\<close> of the
  section adds no property: its value becomes the prototype of the returned object
  when it is an object, an array or \<^verbatim>\<open>null\<close>, and is ignored otherwise.
\<close>

theorem uiServer_merge_is_shallow:
  assumes "fst (getConfig p st) = Inr (JObj kvs)"
    and "map_of kvs ''uiServer'' = Some (JObj sec)"
    and "\<not> isCFEnvironment p"
  shows "\<exists>r. fst (getUIServer p st) = Inr r \<and>
              map_of (own_properties r) =
                map_of (defaultUIServer p) ++ (map_of sec)(''__proto__'' := None) \<and>
              replaced_prototype r = prototype_of (map_of sec ''__proto__'')"
proof -
  have s: "seen p st = JObj kvs"
    using assms(1) by (rule seen_of_getConfig)
  have "fst (getUIServer p st) =
          Inr \<lparr>own_properties =
                  assign_entries (defaultUIServer p) (AList.delete ''__proto__'' sec),
                replaced_prototype = prototype_of (map_of sec ''__proto__'')\<rparr>"
    using assms(2,3) s
    by (simp add: getUIServer_def fst_simps reads_simps hasOwnProp_def just_merge_def)
  then show ?thesis
    by (simp add: map_of_assign_entries delete_conv')
qed

theorem uiServer_merge_is_shallow_witness:
  "\<exists>r. fst (getUIServer
              (example_platform
                 (Inr (JObj [(''uiServer'',
                               JObj [(''enabled'', JBool True), (''__proto__'', JNum 5)])])))
              initial_store) = Inr r
       \<and> map_of (own_properties r) ''enabled'' = Some (JBool True)
       \<and> map_of (own_properties r) ''type'' = Some (JStr ''ws'')
       \<and> map_of (own_properties r) ''__proto__'' = None
       \<and> replaced_prototype r = None"
proof -
  let ?sec = "[(''enabled'', JBool True), (''__proto__'', JNum 5)]"
  let ?doc = "[(''uiServer'', JObj ?sec)]"
  let ?p = "example_platform (Inr (JObj ?doc))"
  have h1: "fst (getConfig ?p initial_store) = Inr (JObj ?doc)"
    by code_simp
  have h2: "map_of ?doc ''uiServer'' = Some (JObj ?sec)"
    by simp
  have h3: "\<not> isCFEnvironment ?p"
    by (simp add: example_platform_def)
  from uiServer_merge_is_shallow[OF h1 h2 h3] obtain r where
    r: "fst (getUIServer ?p initial_store) = Inr r"
       "map_of (own_properties r) =
          map_of (defaultUIServer ?p) ++ (map_of ?sec)(''__proto__'' := None)"
       "replaced_prototype r = prototype_of (map_of ?sec ''__proto__'')"
    by blast
  have "map_of (own_properties r) ''enabled'' = Some (JBool True)"
       "map_of (own_properties r) ''type'' = Some (JStr ''ws'')"
       "map_of (own_properties r) ''__proto__'' = None"
    by (simp_all add: r(2) defaultUIServer_def example_platform_def map_add_def)
  moreover have "replaced_prototype r = None"
    by (simp add: r(3) prototype_of_def)
  ultimately show ?thesis
    using r(1) by blast
qed

section \<open>C2: an accessor that throws when the document or the key is missing\<close>

text \<open>
  Claim C2 says no accessor ever throws: with the document absent after a failed load,
  or with its key missing, each returns its defaults. \<^verbatim>\<open>getConfig\<close> does swallow the
  failure and return \<^verbatim>\<open>null\<close>, and the accessors built on \<^verbatim>\<open>Utils.hasOwnProp\<close> and
  \<^verbatim>\<open>?.\<close> accept it. \<^verbatim>\<open>getStationTemplateUrls\<close> does not: with the file missing,
  \<^verbatim>\<open>warnDeprecatedConfigurationKey\<close> reads \<^verbatim>\<open>Configuration.getConfig()[key]\<close> on \<^verbatim>\<open>null\<close>;
  with the document \<^verbatim>\<open>{}\<close>, \<^verbatim>\<open>Configuration.getConfig().stationTemplateUrls.forEach\<close> is
  called on \<^verbatim>\<open>undefined\<close>. Both throw a \<^verbatim>\<open>TypeError\<close>, though the method ends in
  \<^verbatim>\<open>return Configuration.getConfig()?.stationTemplateUrls\<close> and is declared to return
  \<^verbatim>\<open>StationTemplateUrl[] | undefined\<close>.
\<close>

theorem getStationTemplateUrls_throws_without_urls:
  "fst (getStationTemplateUrls
          ((example_platform (Inl (Some ''ENOENT'')))
             \<lparr>watchConfigurationFile := Some (Some ''ENOENT'')\<rparr>)
          initial_store) = Inl TypeError
   \<and> fst (getStationTemplateUrls (example_platform (Inr (JObj []))) initial_store)
       = Inl TypeError"
  by code_simp

section \<open>C3: the URI of a JSON-file performance storage\<close>

text \<open>
  Claim C3 says that for every document whose \<^verbatim>\<open>performanceStorage\<close> has the JSON-file
  type and a uri, the returned uri is rebuilt from the path of that uri against the
  base directory, the scheme, the host and the directory prefix discarded. The
  directories of the path are kept: \<^verbatim>\<open>file:///anywhere/data.json\<close> becomes
  \<^verbatim>\<open>file:///opt/simulator/anywhere/data.json\<close>, not \<^verbatim>\<open>file:///opt/simulator/data.json\<close>.
  And a uri that \<^verbatim>\<open>new URL\<close> refuses, such as the relative \<^verbatim>\<open>data.json\<close>, makes the
  accessor throw.
\<close>

theorem performance_uri_keeps_directories:
  "fst (getPerformanceStorage
          (example_platform
             (Inr (JObj [(''performanceStorage'',
                            JObj [(''type'', JStr ''jsonfile''),
                                  (''uri'', JStr ''file:///anywhere/data.json'')])])))
          initial_store)
     = Inr (JObj [(''enabled'', JBool False), (''type'', JStr ''jsonfile''),
                  (''uri'', JStr ''file:///opt/simulator/anywhere/data.json'')])
   \<and> ''file:///opt/simulator/anywhere/data.json'' \<noteq> ''file:///opt/simulator/data.json''
   \<and> fst (getPerformanceStorage
          (example_platform
             (Inr (JObj [(''performanceStorage'',
                            JObj [(''type'', JStr ''jsonfile''),
                                  (''uri'', JStr ''data.json'')])])))
          initial_store)
     = Inl TypeError"
  by code_simp

lemma reads_rebuiltUri: "reads p (rebuiltUri p)"
  unfolding rebuiltUri_def
  by (auto intro!: reads_intros reads_configMember split: option.splits)

lemma fst_rebuiltUri:
  "fst (rebuiltUri p st) =
     (if opt_member (member (seen p st) ''performanceStorage'') ''type''
           = Some (JStr (StorageType_JSON_FILE p))
      then (case opt_member (member (seen p st) ''performanceStorage'') ''uri'' of
              None \<Rightarrow> Inr []
            | Some u \<Rightarrow>
                if truthy u then
                  (case url_pathname p u of
                     None \<Rightarrow> Inl TypeError
                   | Some pathname \<Rightarrow>
                       Inr [(''uri'', JStr (buildPerformanceUriFilePath p pathname))])
                else Inr [])
      else Inr [])"
  by (simp add: rebuiltUri_def fst_simps reads_simps split: option.splits)

lemma fst_getPerformanceStorage:
  assumes "seen p st = JObj kvs" and "map_of kvs ''performanceStorage'' = Some (JObj sec)"
  shows "fst (getPerformanceStorage p st) =
     (case fst (rebuiltUri p st) of
        Inl e \<Rightarrow> Inl e
      | Inr rebuilt \<Rightarrow>
          Inr (JObj (assign_entries
                 (assign_entries
                    (defaultPerformanceStorage p
                       (buildPerformanceUriFilePath p (DEFAULT_PERFORMANCE_RECORDS_FILENAME p)))
                    sec)
                 rebuilt)))"
  using assms
  by (simp add: getPerformanceStorage_def fst_simps reads_simps fst_warn_section
        reads_seen[OF reads_warn] reads_seen[OF reads_rebuiltUri] fst_rebuiltUri
        getDefaultPerformanceStorageUri_def hasOwnProp_def opt_entries_def
      split: sum.splits)

text \<open>
  Claim C3, amended: for every document whose \<^verbatim>\<open>performanceStorage\<close> is an object with
  the JSON-file type and a truthy uri that \<^verbatim>\<open>new URL\<close> accepts, the returned uri is
  \<^verbatim>\<open>file://\<close> followed by \<^verbatim>\<open>path.join\<close> of the base directory and the whole path of the
  supplied uri, its directories included; the scheme and the host are discarded.
\<close>

theorem performance_uri_rerooted:
  assumes "fst (getConfig p st) = Inr (JObj kvs)"
    and "map_of kvs ''performanceStorage'' = Some (JObj sec)"
    and "map_of sec ''type'' = Some (JStr (StorageType_JSON_FILE p))"
    and "map_of sec ''uri'' = Some u"
    and "truthy u"
    and "url_pathname p u = Some pathname"
  shows "\<exists>r. fst (getPerformanceStorage p st) = Inr (JObj r) \<and>
           map_of r ''uri'' =
             Some (JStr (''file://'' @ path_join p (installParentDir p) pathname))"
proof -
  have s: "seen p st = JObj kvs"
    using assms(1) by (rule seen_of_getConfig)
  have r: "fst (rebuiltUri p st) =
             Inr [(''uri'', JStr (buildPerformanceUriFilePath p pathname))]"
    using s assms(2-6) by (simp add: fst_rebuiltUri opt_member_def)
  show ?thesis
    by (simp add: fst_getPerformanceStorage[OF s assms(2)] r map_of_assign_entries
          buildPerformanceUriFilePath_def)
qed

theorem performance_uri_rerooted_witness:
  "\<exists>r. fst (getPerformanceStorage
              (example_platform
                 (Inr (JObj [(''performanceStorage'',
                                JObj [(''type'', JStr ''jsonfile''),
                                      (''uri'', JStr ''https://example.org/anywhere/data.json'')])])))
              initial_store) = Inr (JObj r)
       \<and> map_of r ''uri'' = Some (JStr ''file:///opt/simulator/anywhere/data.json'')"
proof -
  let ?sec = "[(''type'', JStr ''jsonfile''),
               (''uri'', JStr ''https://example.org/anywhere/data.json'')]"
  let ?doc = "[(''performanceStorage'', JObj ?sec)]"
  let ?p = "example_platform (Inr (JObj ?doc))"
  have h1: "fst (getConfig ?p initial_store) = Inr (JObj ?doc)"
    by code_simp
  have h2: "map_of ?doc ''performanceStorage'' = Some (JObj ?sec)"
    by simp
  have h3: "map_of ?sec ''type'' = Some (JStr (StorageType_JSON_FILE ?p))"
    by (simp add: example_platform_def)
  have h4: "map_of ?sec ''uri'' = Some (JStr ''https://example.org/anywhere/data.json'')"
    by simp
  have h5: "truthy (JStr ''https://example.org/anywhere/data.json'')"
    by simp
  have h6: "url_pathname ?p (JStr ''https://example.org/anywhere/data.json'')
              = Some ''/anywhere/data.json''"
    by (simp add: example_platform_def example_pathname_def)
  have j: "''file://'' @ path_join ?p (installParentDir ?p) ''/anywhere/data.json''
             = ''file:///opt/simulator/anywhere/data.json''"
    by (simp add: example_platform_def example_join_def)
  show ?thesis
    using performance_uri_rerooted[OF h1 h2 h3 h4 h5 h6] unfolding j .
qed

section \<open>C4: the legacy key of the station template URLs\<close>

text \<open>
  Claim C4 says the legacy \<^verbatim>\<open>stationTemplateURLs\<close> is copied into \<^verbatim>\<open>stationTemplateUrls\<close>
  only when the canonical key is absent. The code tests the legacy key alone: with
  both keys present the canonical value is overwritten by the legacy one, in the
  cached document and in the returned value.
\<close>

theorem legacy_urls_overwrite_canonical:
  "fst (getStationTemplateUrls
         (example_platform
            (Inr (JObj [(''stationTemplateURLs'', JArr [JObj [(''file'', JStr ''a.json'')]] []),
                        (''stationTemplateUrls'', JArr [JObj [(''file'', JStr ''b.json'')]] [])])))
         initial_store)
     = Inr (Some (JArr [JObj [(''file'', JStr ''a.json'')]] []))
   \<and> configuration (snd (getStationTemplateUrls
         (example_platform
            (Inr (JObj [(''stationTemplateURLs'', JArr [JObj [(''file'', JStr ''a.json'')]] []),
                        (''stationTemplateUrls'', JArr [JObj [(''file'', JStr ''b.json'')]] [])])))
         initial_store))
     = JObj [(''stationTemplateURLs'', JArr [JObj [(''file'', JStr ''a.json'')]] []),
             (''stationTemplateUrls'', JArr [JObj [(''file'', JStr ''a.json'')]] [])]"
  by code_simp

lemma warnNumberOfStation_step:
  "x \<noteq> JNull \<Longrightarrow>
   warnNumberOfStation p x s =
     (Inr (),
      s\<lparr>console := console s @
           (if member x ''numberOfStation'' \<noteq> None
            then [ConsoleError (logPrefix p) (DeprecatedNumberOfStation (member x ''file''))]
            else [])\<rparr>)"
  by (simp add: warnNumberOfStation_def and_then_def lift_def get_prop_def isUndefined_def
        console_error_def ok_def)

lemma forEach_warnNumberOfStation:
  "JNull \<notin> set xs \<Longrightarrow>
   forEach (warnNumberOfStation p) xs s =
     (Inr (),
      s\<lparr>console := console s @
           map (\<lambda>x. ConsoleError (logPrefix p) (DeprecatedNumberOfStation (member x ''file'')))
             (filter (\<lambda>x. member x ''numberOfStation'' \<noteq> None) xs)\<rparr>)"
proof (induction xs arbitrary: s)
  case Nil
  then show ?case
    by (simp add: ok_def)
next
  case (Cons x xs)
  from Cons.prems have x: "x \<noteq> JNull" and xs: "JNull \<notin> set xs"
    by auto
  show ?case
    by (simp add: and_then_def warnNumberOfStation_step[OF x] Cons.IH[OF xs])
qed

lemma stationTemplateUrls_run:
  assumes "getConfig p st = (Inr (JObj kvs), st1)"
    and "configuration st1 = JObj kvs"
    and "map_of kvs ''stationTemplateURLs'' = Some (JArr xs ps)"
    and "JNull \<notin> set xs"
  shows "getStationTemplateUrls p st =
     (Inr (Some (JArr xs ps)),
      st1\<lparr>configuration := JObj (AList.update ''stationTemplateUrls'' (JArr xs ps) kvs),
          console := console st1 @
           ConsoleError (logPrefix p)
             (DeprecatedKey ''stationTemplateURLs'' None
                (deprecationSuffix ''Use 'stationTemplateUrls' instead'')) #
           map (\<lambda>x. ConsoleError (logPrefix p) (DeprecatedNumberOfStation (member x ''file'')))
             (filter (\<lambda>x. member x ''numberOfStation'' \<noteq> None) xs)\<rparr>)"
proof -
  have warn: "warnDeprecatedConfigurationKey p ''stationTemplateURLs'' None
                ''Use 'stationTemplateUrls' instead'' st =
      (Inr (), st1\<lparr>console := console st1 @
           [ConsoleError (logPrefix p)
             (DeprecatedKey ''stationTemplateURLs'' None
                (deprecationSuffix ''Use 'stationTemplateUrls' instead''))]\<rparr>)"
    using assms(1,3)
    by (simp add: warnDeprecatedConfigurationKey_def sectionHoldsKey_def configProp_def
          and_then_def ok_def lift_def get_prop_def isUndefined_def console_error_def)
  define st2 where "st2 = st1\<lparr>console := console st1 @
           [ConsoleError (logPrefix p)
             (DeprecatedKey ''stationTemplateURLs'' None
                (deprecationSuffix ''Use 'stationTemplateUrls' instead''))]\<rparr>"
  have c2: "configuration st2 = JObj kvs"
    using assms(2) by (simp add: st2_def)
  have g2: "getConfig p st2 = (Inr (JObj kvs), st2)"
    using getConfig_cached[of st2 p] c2 by simp
  define st3 where "st3 = st2\<lparr>configuration :=
      JObj (AList.update ''stationTemplateUrls'' (JArr xs ps) kvs)\<rparr>"
  have g3: "getConfig p st3 =
      (Inr (JObj (AList.update ''stationTemplateUrls'' (JArr xs ps) kvs)), st3)"
    using getConfig_cached[of st3 p] by (simp add: st3_def)
  have legacy: "configProp p ''stationTemplateURLs'' st2 = (Inr (Some (JArr xs ps)), st2)"
    using assms(3) by (simp add: configProp_def and_then_def g2 lift_def get_prop_def)
  have urls: "configProp p ''stationTemplateUrls'' st3 = (Inr (Some (JArr xs ps)), st3)"
    by (simp add: configProp_def and_then_def g3 lift_def get_prop_def update_conv')
  define st4 where "st4 = st3\<lparr>console := console st3 @
           map (\<lambda>x. ConsoleError (logPrefix p) (DeprecatedNumberOfStation (member x ''file'')))
             (filter (\<lambda>x. member x ''numberOfStation'' \<noteq> None) xs)\<rparr>"
  have each: "forEach (warnNumberOfStation p) xs st3 = (Inr (), st4)"
    by (simp add: forEach_warnNumberOfStation[OF assms(4)] st4_def)
  have g4: "getConfig p st4 =
      (Inr (JObj (AList.update ''stationTemplateUrls'' (JArr xs ps) kvs)), st4)"
    using getConfig_cached[of st4 p] by (simp add: st4_def st3_def)
  have last: "configMember p ''stationTemplateUrls'' st4 = (Inr (Some (JArr xs ps)), st4)"
    by (simp add: configMember_def and_then_def g4 ok_def update_conv')
  have "getStationTemplateUrls p st = (Inr (Some (JArr xs ps)), st4)"
    unfolding getStationTemplateUrls_def
    by (simp add: and_then_def warn[folded st2_def] legacy isUndefined_def g2
          assignConfig_def st3_def[symmetric] urls each last)
  then show ?thesis
    by (simp add: st4_def st3_def st2_def)
qed

text \<open>
  Claim C4, amended: for every document in which the legacy key \<^verbatim>\<open>stationTemplateURLs\<close>
  holds an array with no \<^verbatim>\<open>null\<close> element, whether or not the canonical key is present,
  \<^verbatim>\<open>getStationTemplateUrls\<close> writes the legacy array under \<^verbatim>\<open>stationTemplateUrls\<close> in the
  cached document (the model has no operation that writes the file), returns that
  array, and prints exactly one deprecation line for the key \<^verbatim>\<open>stationTemplateURLs\<close>,
  followed by one line for each element that has a \<^verbatim>\<open>numberOfStation\<close> property.
\<close>

theorem legacy_urls_copied:
  assumes "fst (getConfig p st) = Inr (JObj kvs)"
    and "map_of kvs ''stationTemplateURLs'' = Some (JArr xs ps)"
    and "JNull \<notin> set xs"
  shows "getStationTemplateUrls p st =
     (Inr (Some (JArr xs ps)),
      (snd (getConfig p st))
        \<lparr>configuration := JObj (AList.update ''stationTemplateUrls'' (JArr xs ps) kvs),
         console := console (snd (getConfig p st)) @
           ConsoleError (logPrefix p)
             (DeprecatedKey ''stationTemplateURLs'' None
                (deprecationSuffix ''Use 'stationTemplateUrls' instead'')) #
           map (\<lambda>x. ConsoleError (logPrefix p) (DeprecatedNumberOfStation (member x ''file'')))
             (filter (\<lambda>x. member x ''numberOfStation'' \<noteq> None) xs)\<rparr>)"
  using stationTemplateUrls_run[OF getConfig_pair[OF assms(1)] assms(2,3)] .

theorem legacy_urls_copied_witness:
  "fst (getStationTemplateUrls
          (example_platform
             (Inr (JObj [(''stationTemplateURLs'',
                            JArr [JObj [(''file'', JStr ''a.json'')]] [])])))
          initial_store)
     = Inr (Some (JArr [JObj [(''file'', JStr ''a.json'')]] []))
   \<and> member (configuration (snd (getStationTemplateUrls
          (example_platform
             (Inr (JObj [(''stationTemplateURLs'',
                            JArr [JObj [(''file'', JStr ''a.json'')]] [])])))
          initial_store))) ''stationTemplateUrls''
     = Some (JArr [JObj [(''file'', JStr ''a.json'')]] [])"
proof -
  let ?xs = "[JObj [(''file'', JStr ''a.json'')]]"
  let ?doc = "[(''stationTemplateURLs'', JArr ?xs [])]"
  let ?p = "example_platform (Inr (JObj ?doc))"
  have h1: "fst (getConfig ?p initial_store) = Inr (JObj ?doc)"
    by code_simp
  have h2: "map_of ?doc ''stationTemplateURLs'' = Some (JArr ?xs [])"
    by simp
  have h3: "JNull \<notin> set ?xs"
    by simp
  show ?thesis
    by (simp add: legacy_urls_copied[OF h1 h2 h3])
qed

section \<open>C5: the override on a cloud platform\<close>

text \<open>
  Claim C5 says that on a cloud platform with \<^verbatim>\<open>PORT\<close> set the returned options have no
  host and the port of \<^verbatim>\<open>PORT\<close>, for every document content. The cloud branch is
  \<^verbatim>\<open>delete uiServerConfiguration.options?.host\<close> followed by
  \<^verbatim>\<open>uiServerConfiguration.options.port = parseInt(process.env.PORT)\<close>: the first line
  allows for \<^verbatim>\<open>options\<close> being \<^verbatim>\<open>null\<close> or \<^verbatim>\<open>undefined\<close>, the second does not. On the
  document \<^verbatim>\<open>{"uiServer": {"options": null}}\<close> the merge puts \<^verbatim>\<open>null\<close> in \<^verbatim>\<open>options\<close>, the
  first line passes and the second throws a \<^verbatim>\<open>TypeError\<close>: the accessor returns nothing.
\<close>

theorem cloud_override_throws_on_null_options:
  "fst (getUIServer
          (cloud_platform (Inr (JObj [(''uiServer'', JObj [(''options'', JNull)])])) ''8443'')
          initial_store)
     = Inl TypeError"
  by code_simp

text \<open>
  Where \<^verbatim>\<open>options\<close> is an object the branch does what the claim says; the lemmas below
  state it, for the record of what the slip leaves standing.
\<close>

lemma decimal_char_of: "(d::nat) < 10 \<Longrightarrow> decimal (char_of (48 + d))"
  by (simp add: decimal_def)

lemma digit_of_char_of: "(d::nat) < 10 \<Longrightarrow> digit_of 10 (char_of (48 + d)) = Some d"
  by (simp add: digit_of_def Let_def)

lemma string_of_nat_decimal: "c \<in> set (string_of_nat n) \<Longrightarrow> decimal c"
proof (induction n arbitrary: c rule: string_of_nat.induct)
  case (1 n)
  show ?case
  proof (cases "n < 10")
    case True
    with "1.prems" have "c = char_of (48 + n)"
      by (subst (asm) string_of_nat.simps) simp
    with True show ?thesis
      by (simp add: decimal_char_of)
  next
    case False
    with "1.prems" have "c \<in> set (string_of_nat (n div 10)) \<or> c = char_of (48 + n mod 10)"
      by (subst (asm) string_of_nat.simps) auto
    then show ?thesis
      using "1.IH"[OF False] decimal_char_of[of "n mod 10"] by auto
  qed
qed

lemma string_of_nat_nonempty: "string_of_nat n \<noteq> []"
  by (subst string_of_nat.simps) simp

lemma digits_value_snoc:
  "digits_value r (ds @ [c]) =
     digits_value r ds * int r + (case digit_of r c of None \<Rightarrow> 0 | Some d \<Rightarrow> int d)"
  by (simp add: digits_value_def)

lemma digits_value_string_of_nat: "digits_value 10 (string_of_nat n) = int n"
proof (induction n rule: string_of_nat.induct)
  case (1 n)
  show ?case
  proof (cases "n < 10")
    case True
    then show ?thesis
      by (subst string_of_nat.simps) (simp add: digits_value_def digit_of_char_of)
  next
    case False
    have "digits_value 10 (string_of_nat n) =
            digits_value 10 (string_of_nat (n div 10) @ [char_of (48 + n mod 10)])"
      using False by (subst string_of_nat.simps) simp
    also have "\<dots> = int (n div 10) * 10 + int (n mod 10)"
      by (simp add: digits_value_snoc "1.IH"[OF False] digit_of_char_of)
    also have "\<dots> = int n"
      by (simp add: zdiv_int zmod_int)
    finally show ?thesis .
  qed
qed

lemma decimal_digit_of: "decimal c \<Longrightarrow> digit_of 10 c \<noteq> None"
  by (auto simp: decimal_def digit_of_def Let_def)

lemma decimal_not_space: "decimal c \<Longrightarrow> \<not> is_space c"
  by (auto simp: decimal_def is_space_def)

lemma parseInt_decimal:
  assumes "n < 2 ^ 53"
  shows "parseInt (Some (string_of_nat n)) = JNum (int n)"
proof -
  let ?s = "string_of_nat n"
  have all: "\<And>c. c \<in> set ?s \<Longrightarrow> decimal c"
    by (rule string_of_nat_decimal)
  obtain c cs where s: "?s = c # cs"
    using string_of_nat_nonempty[of n] by (cases ?s) auto
  have c: "decimal c"
    using all s by simp
  have sp: "dropWhile is_space ?s = ?s"
    using c s by (simp add: decimal_not_space)
  have sign: "take 1 ?s \<noteq> ''-''" "take 1 ?s \<noteq> ''+''"
    using c s by (auto simp: decimal_def)
  have hex: "take 2 ?s \<noteq> ''0x''" "take 2 ?s \<noteq> ''0X''"
  proof -
    have x: "\<not> decimal CHR ''x''" "\<not> decimal CHR ''X''"
      by (simp_all add: decimal_def)
    { fix t assume "take 2 ?s = [CHR ''0'', t]"
      then have "t \<in> set (take 2 ?s)" by simp
      then have "t \<in> set ?s" by (rule in_set_takeD)
      then have "decimal t" by (rule all) }
    with x show "take 2 ?s \<noteq> ''0x''" "take 2 ?s \<noteq> ''0X''"
      by auto
  qed
  have tw: "takeWhile (\<lambda>c. digit_of 10 c \<noteq> None) ?s = ?s"
    using all decimal_digit_of by (auto simp: takeWhile_eq_all_conv)
  have "parseInt (Some ?s) =
          (if takeWhile (\<lambda>c. digit_of 10 c \<noteq> None) ?s = [] then JNaN
           else (case number_of_int (digits_value 10
                         (takeWhile (\<lambda>c. digit_of 10 c \<noteq> None) ?s)) of
                   Some m \<Rightarrow> JNum (1 * m)
                 | None \<Rightarrow> JInfinity))"
    unfolding parseInt_def Let_def option.case sp
    by (simp only: sign hex if_False simp_thms)
  then have "parseInt (Some ?s) =
          (if ?s = [] then JNaN
           else (case number_of_int (digits_value 10 ?s) of
                   Some m \<Rightarrow> JNum (1 * m)
                 | None \<Rightarrow> JInfinity))"
    by (simp only: tw)
  then show ?thesis
    using assms
    by (simp add: string_of_nat_nonempty digits_value_string_of_nat number_of_int_def)
qed

text \<open>Above \<open>2 ^ 53\<close> the port is the nearest Number, not the integer of the text.\<close>

lemma parseInt_rounds_to_a_double:
  "parseInt (Some ''9007199254740993'') = JNum 9007199254740992
   \<and> parseInt (Some ''9007199254740995'') = JNum 9007199254740996
   \<and> parseInt (Some ''-9007199254740993'') = JNum (- 9007199254740992)
   \<and> parseInt (Some '' 8443px'') = JNum 8443
   \<and> parseInt (Some ''port'') = JNaN
   \<and> parseInt None = JNaN"
  by code_simp

lemma fst_shareOptions: "fst (shareOptions ext v st) = Inr ()"
  by (simp add: shareOptions_def split: option.splits sum.splits)

lemma cloudOptions_object:
  assumes "is_object v"
  shows "\<exists>v'. cloudOptions p (Some v) = Inr v' \<and> member v' ''host'' = None \<and>
               member v' ''port'' = Some (parseInt (env_PORT p))"
  using assms by (cases v) (simp_all add: cloudOptions_def update_conv' delete_conv')

lemma fst_getUIServer_cloud:
  assumes "isCFEnvironment p"
  shows "fst (getUIServer p st) =
     (case (if hasOwnProp (seen p st) ''uiServer''
            then just_merge (defaultUIServer p) (member (seen p st) ''uiServer'')
            else Inr \<lparr>own_properties = defaultUIServer p, replaced_prototype = None\<rparr>) of
        Inl e \<Rightarrow> Inl e
      | Inr c \<Rightarrow>
          (case cloudOptions p (map_of (own_properties c) ''options'') of
             Inl e \<Rightarrow> Inl e
           | Inr v' \<Rightarrow>
               Inr (c\<lparr>own_properties := AList.update ''options'' v' (own_properties c)\<rparr>)))"
  using assms
  by (simp add: getUIServer_def fst_simps reads_simps fst_shareOptions split: sum.splits)

lemma cloud_override_on_objects:
  assumes "isCFEnvironment p"
    and "fst (getConfig p st) = Inr d"
    and "\<forall>e. member d ''uiServer'' = Some e \<longrightarrow>
           (\<exists>sec. e = JObj sec \<and> (\<forall>v. map_of sec ''options'' = Some v \<longrightarrow> is_object v))"
  shows "\<exists>r opts. fst (getUIServer p st) = Inr r \<and>
           map_of (own_properties r) ''options'' = Some opts \<and>
           member opts ''host'' = None \<and>
           member opts ''port'' = Some (parseInt (env_PORT p)) \<and>
           (\<forall>n. n < 2 ^ 53 \<and> env_PORT p = Some (string_of_nat n) \<longrightarrow>
                member opts ''port'' = Some (JNum (int n)))"
proof -
  have s: "seen p st = d"
    using assms(2) by (rule seen_of_getConfig)
  obtain c where c: "(if hasOwnProp d ''uiServer''
            then just_merge (defaultUIServer p) (member d ''uiServer'')
            else Inr \<lparr>own_properties = defaultUIServer p, replaced_prototype = None\<rparr>)
          = Inr c"
    and o: "\<exists>v. map_of (own_properties c) ''options'' = Some v \<and> is_object v"
  proof (cases "hasOwnProp d ''uiServer''")
    case False
    then show ?thesis
      by (intro that[of "\<lparr>own_properties = defaultUIServer p, replaced_prototype = None\<rparr>"])
        (simp_all add: defaultUIServer_def)
  next
    case True
    then obtain kvs e where d: "d = JObj kvs" and e: "map_of kvs ''uiServer'' = Some e"
      by (auto simp: hasOwnProp_def split: jsvalue.splits)
    with assms(3) obtain sec where sec: "e = JObj sec"
      and v: "\<forall>v. map_of sec ''options'' = Some v \<longrightarrow> is_object v"
      by auto
    let ?c = "\<lparr>own_properties =
                 assign_entries (defaultUIServer p) (AList.delete ''__proto__'' sec),
               replaced_prototype = prototype_of (map_of sec ''__proto__'')\<rparr>"
    show ?thesis
    proof (intro that[of ?c])
      show "(if hasOwnProp d ''uiServer''
            then just_merge (defaultUIServer p) (member d ''uiServer'')
            else Inr \<lparr>own_properties = defaultUIServer p, replaced_prototype = None\<rparr>)
          = Inr ?c"
        using True d e sec by (simp add: just_merge_def)
      show "\<exists>v. map_of (own_properties ?c) ''options'' = Some v \<and> is_object v"
        using v by (cases "map_of sec ''options''")
          (simp_all add: map_of_assign_entries delete_conv' map_add_def defaultUIServer_def)
    qed
  qed
  from o obtain v where v: "map_of (own_properties c) ''options'' = Some v" "is_object v"
    by blast
  from cloudOptions_object[OF v(2), of p] obtain v' where
    v': "cloudOptions p (Some v) = Inr v'" "member v' ''host'' = None"
        "member v' ''port'' = Some (parseInt (env_PORT p))"
    by blast
  have "fst (getUIServer p st) =
          Inr (c\<lparr>own_properties := AList.update ''options'' v' (own_properties c)\<rparr>)"
    by (simp only: fst_getUIServer_cloud[OF assms(1)] s c v v' sum.case)
  with v' show ?thesis
    by (auto simp: update_conv' parseInt_decimal)
qed

lemma cloud_override_on_objects_example:
  "\<exists>r opts.
      fst (getUIServer
             (cloud_platform
                (Inr (JObj [(''uiServer'',
                               JObj [(''options'',
                                        JObj [(''host'', JStr ''0.0.0.0''),
                                              (''port'', JNum 9000)])])]))
                ''8443'')
             initial_store) = Inr r
      \<and> map_of (own_properties r) ''options'' = Some opts
      \<and> member opts ''host'' = None
      \<and> member opts ''port'' = Some (JNum 8443)"
proof -
  let ?doc = "JObj [(''uiServer'',
                       JObj [(''options'',
                                JObj [(''host'', JStr ''0.0.0.0''), (''port'', JNum 9000)])])]"
  let ?p = "cloud_platform (Inr ?doc) ''8443''"
  have h1: "isCFEnvironment ?p"
    by (simp add: cloud_platform_def)
  have h2: "fst (getConfig ?p initial_store) = Inr ?doc"
    by code_simp
  have h3: "\<forall>e. member ?doc ''uiServer'' = Some e \<longrightarrow>
           (\<exists>sec. e = JObj sec \<and> (\<forall>v. map_of sec ''options'' = Some v \<longrightarrow> is_object v))"
    by auto
  have port: "parseInt (env_PORT ?p) = JNum 8443"
    by code_simp
  from cloud_override_on_objects[OF h1 h2 h3] show ?thesis
    unfolding port by blast
qed

section \<open>C6: one watcher for the life of the process\<close>

text \<open>
  Claim C6 says the watcher is created only when a load succeeds. In \<^verbatim>\<open>getConfig\<close> the
  test \<^verbatim>\<open>if (!Configuration.configurationFileWatcher)\<close> stands after the \<^verbatim>\<open>try\<close>/\<^verbatim>\<open>catch\<close>,
  so the watcher is created after a failed load as well: when the file exists and
  \<^verbatim>\<open>JSON.parse\<close> rejects its text, one call leaves the document \<^verbatim>\<open>null\<close> and a watcher
  subscribed.
\<close>

theorem watcher_created_after_failed_load:
  "fs_watches (run_steps [Call (example_platform (Inl None)) GetLogMaxFiles]) = 1
   \<and> configurationFileWatcher (run_steps [Call (example_platform (Inl None)) GetLogMaxFiles])
       = Some 0
   \<and> configuration (run_steps [Call (example_platform (Inl None)) GetLogMaxFiles]) = JNull"
  by code_simp

text \<open>
  Claim C6, amended: after any run of the process (calls of the public methods on any
  platform states, registrations of the callback, file events) at most one watcher has
  been created, and the static field holds it exactly when it has been; once it
  exists no step creates another or replaces it, whatever the cached document is; and
  a call of \<^verbatim>\<open>getConfig\<close> creates it exactly when the cached document is falsy, no
  watcher exists and \<^verbatim>\<open>fs.watch\<close> succeeds, whether or not the load did.
\<close>

theorem watcher_created_once:
  "fs_watches (run_steps steps) \<le> 1 \<and>
   (configurationFileWatcher (run_steps steps) \<noteq> None) = (fs_watches (run_steps steps) = 1) \<and>
   (configurationFileWatcher (run_steps steps) \<noteq> None \<longrightarrow>
      configurationFileWatcher (exec s (run_steps steps))
        = configurationFileWatcher (run_steps steps) \<and>
      fs_watches (exec s (run_steps steps)) = fs_watches (run_steps steps)) \<and>
   fs_watches (snd (getConfig p (run_steps steps))) =
     (if \<not> truthy (configuration (run_steps steps)) \<and>
         configurationFileWatcher (run_steps steps) = None \<and> watchConfigurationFile p = None
      then 1 else fs_watches (run_steps steps))"
proof -
  have i: "watcher_inv (run_steps steps)"
    by (rule run_steps_inv)
  have k: "watcher_kept (run_steps steps) (exec s (run_steps steps))"
    by (rule exec_kept)
  show ?thesis
    using i k
    by (auto simp: watcher_inv_def watcher_kept_def getConfig_fs_watches split: if_splits)
qed

theorem watcher_created_once_witness:
  "configuration
     (run_steps [Call (example_platform (Inr (JObj []))) GetUIServer,
                 FileEvent ''change'' (Some ''config.json'') Fulfilled]) = JNull
   \<and> configurationFileWatcher
     (run_steps [Call (example_platform (Inr (JObj []))) GetUIServer,
                 FileEvent ''change'' (Some ''config.json'') Fulfilled]) \<noteq> None
   \<and> fs_watches
       (exec (Call (example_platform (Inr (JObj []))) GetUIServer)
          (run_steps [Call (example_platform (Inr (JObj []))) GetUIServer,
                      FileEvent ''change'' (Some ''config.json'') Fulfilled]))
     = fs_watches
         (run_steps [Call (example_platform (Inr (JObj []))) GetUIServer,
                     FileEvent ''change'' (Some ''config.json'') Fulfilled])
   \<and> fs_watches
       (run_steps [Call (example_platform (Inr (JObj []))) GetUIServer,
                   FileEvent ''change'' (Some ''config.json'') Fulfilled]) \<le> 1"
proof -
  let ?p = "example_platform (Inr (JObj []))"
  let ?steps = "[Call ?p GetUIServer, FileEvent ''change'' (Some ''config.json'') Fulfilled]"
  have c: "configuration (run_steps ?steps) = JNull"
    by code_simp
  have w: "configurationFileWatcher (run_steps ?steps) \<noteq> None"
    by code_simp
  from watcher_created_once[of ?steps "Call ?p GetUIServer" ?p] c w
  show ?thesis
    by simp
qed

section \<open>C7: what the watch listener does on a change\<close>

text \<open>
  Claim C7 says the listener invalidates the cache on every change event with a
  non-empty filename. The guard is \<^verbatim>\<open>filename?.trim().length > 0\<close>: a filename made of
  white space is not empty, and on it the listener does nothing.
\<close>

theorem blank_filename_not_invalidated:
  "'' '' \<noteq> []
   \<and> watchListener (\<lambda>cb s. (Fulfilled, s)) ''change'' (Some '' '')
       (initial_store\<lparr>configuration := JObj []\<rparr>)
     = (None, initial_store\<lparr>configuration := JObj []\<rparr>)"
  by code_simp

text \<open>
  Claim C7, amended: on a \<^verbatim>\<open>change\<close> event whose filename is not empty after trimming
  white space, the listener first sets the cached document to \<^verbatim>\<open>null\<close>; then, if a
  callback is registered, it calls it, on the store that already holds \<^verbatim>\<open>null\<close>; a
  rejection with a string \<open>s\<close> is thrown again as \<^verbatim>\<open>new Error(s)\<close>, any other rejection
  as it is.
\<close>

theorem change_event_invalidates_then_calls_back:
  assumes "trim f \<noteq> []"
  shows "watchListener invoke ''change'' (Some f) st =
     (case configurationChangeCallback st of
        None \<Rightarrow> (None, st\<lparr>configuration := JNull\<rparr>)
      | Some cb \<Rightarrow>
          (case invoke cb (st\<lparr>configuration := JNull\<rparr>) of
             (Fulfilled, st2) \<Rightarrow> (None, st2)
           | (Rejected (Value (JStr s)), st2) \<Rightarrow> (Some (Exception (Error s)), st2)
           | (Rejected r, st2) \<Rightarrow> (Some r, st2)
           | (Threw r, st2) \<Rightarrow> (Some r, st2)))"
  using assms
  by (auto simp: watchListener_def Let_def split: option.splits prod.splits outcome.splits
        reason.splits jsvalue.splits)

theorem change_event_invalidates_then_calls_back_witness:
  "watchListener (\<lambda>cb s. (Rejected (Value (JStr ''reload failed'')), s)) ''change''
     (Some ''config.json'')
     (initial_store\<lparr>configuration := JObj [], configurationChangeCallback := Some 0\<rparr>)
   = (Some (Exception (Error ''reload failed'')),
      initial_store\<lparr>configuration := JNull, configurationChangeCallback := Some 0\<rparr>)"
proof -
  have h: "trim ''config.json'' \<noteq> []"
    by code_simp
  show ?thesis
    by (simp add: change_event_invalidates_then_calls_back[OF h])
qed

section \<open>C8: the key \<^verbatim>\<open>getLogMaxSize\<close> tests\<close>

text \<open>
  Claim C8 says \<^verbatim>\<open>getLogMaxSize\<close> returns the document's \<^verbatim>\<open>logMaxSize\<close> exactly when that
  key is present, independently of the other logging keys, as \<^verbatim>\<open>getLogMaxFiles\<close> does
  for \<^verbatim>\<open>logMaxFiles\<close>. \<^verbatim>\<open>getLogMaxSize\<close> tests
  \<^verbatim>\<open>Utils.hasOwnProp(Configuration.getConfig(), 'logMaxFiles')\<close>, the key of its sibling:
  a document with \<^verbatim>\<open>logMaxSize\<close> alone gets \<^verbatim>\<open>false\<close>, a document with \<^verbatim>\<open>logMaxFiles\<close> alone
  gets \<^verbatim>\<open>undefined\<close>, and \<^verbatim>\<open>getLogMaxFiles\<close> on the latter returns its value.
\<close>

theorem getLogMaxSize_tests_logMaxFiles:
  "fst (getLogMaxSize (example_platform (Inr (JObj [(''logMaxSize'', JStr ''10m'')])))
          initial_store) = Inr (Some (JBool False))
   \<and> fst (getLogMaxSize (example_platform (Inr (JObj [(''logMaxFiles'', JNum 7)])))
          initial_store) = Inr None
   \<and> fst (getLogMaxFiles (example_platform (Inr (JObj [(''logMaxFiles'', JNum 7)])))
          initial_store) = Inr (Some (JNum 7))"
  by code_simp

section \<open>C9: the URI of the other storage types\<close>

text \<open>
  Claim C9: for every document whose \<^verbatim>\<open>performanceStorage\<close> has a type other than the
  JSON-file one and gives a uri, \<^verbatim>\<open>getPerformanceStorage\<close> returns that uri as it is,
  in the section merged key by key over the defaults.
\<close>

theorem performance_uri_verbatim:
  assumes "fst (getConfig p st) = Inr (JObj kvs)"
    and "map_of kvs ''performanceStorage'' = Some (JObj sec)"
    and "map_of sec ''type'' = Some t"
    and "t \<noteq> JStr (StorageType_JSON_FILE p)"
    and "map_of sec ''uri'' = Some u"
  shows "\<exists>r. fst (getPerformanceStorage p st) = Inr (JObj r) \<and>
           map_of r ''uri'' = Some u \<and>
           map_of r =
             map_of (defaultPerformanceStorage p
                       (buildPerformanceUriFilePath p (DEFAULT_PERFORMANCE_RECORDS_FILENAME p)))
               ++ map_of sec"
proof -
  have s: "seen p st = JObj kvs"
    using assms(1) by (rule seen_of_getConfig)
  have r: "fst (rebuiltUri p st) = Inr []"
    using s assms(2-4) by (simp add: fst_rebuiltUri opt_member_def)
  show ?thesis
    using assms(5)
    by (simp add: fst_getPerformanceStorage[OF s assms(2)] r map_of_assign_entries)
qed

theorem performance_uri_verbatim_witness:
  "\<exists>r. fst (getPerformanceStorage
              (example_platform
                 (Inr (JObj [(''performanceStorage'',
                                JObj [(''type'', JStr ''mongodb''),
                                      (''uri'', JStr ''mongodb://db.example.org/perf'')])])))
              initial_store) = Inr (JObj r)
       \<and> map_of r ''uri'' = Some (JStr ''mongodb://db.example.org/perf'')"
proof -
  let ?sec = "[(''type'', JStr ''mongodb''), (''uri'', JStr ''mongodb://db.example.org/perf'')]"
  let ?doc = "[(''performanceStorage'', JObj ?sec)]"
  let ?p = "example_platform (Inr (JObj ?doc))"
  have h1: "fst (getConfig ?p initial_store) = Inr (JObj ?doc)"
    by code_simp
  have h2: "map_of ?doc ''performanceStorage'' = Some (JObj ?sec)"
    by simp
  have h3: "map_of ?sec ''type'' = Some (JStr ''mongodb'')"
    by simp
  have h4: "JStr ''mongodb'' \<noteq> JStr (StorageType_JSON_FILE ?p)"
    by (simp add: example_platform_def)
  have h5: "map_of ?sec ''uri'' = Some (JStr ''mongodb://db.example.org/perf'')"
    by simp
  from performance_uri_verbatim[OF h1 h2 h3 h4 h5] show ?thesis
    by blast
qed

section \<open>C10: a dynamic pool is a pool\<close>

lemma reads_warn_keys:
  "reads p (forEach (\<lambda>(key, msg). warnDeprecatedConfigurationKey p key None msg) ks)"
  by (rule reads_forEach) (auto intro: reads_warn)

lemma fst_warn_keys:
  "fst (forEach (\<lambda>(key, msg). warnDeprecatedConfigurationKey p key None msg) ks st) =
     (if ks \<noteq> [] \<and> seen p st = JNull then Inl TypeError else Inr ())"
proof (induction ks arbitrary: st)
  case Nil
  then show ?case
    by (simp add: fst_ok)
next
  case (Cons k ks)
  obtain key msg where k: "k = (key, msg)"
    by (cases k)
  show ?case
    by (simp add: k fst_and_then fst_warn_key reads_seen[OF reads_warn] Cons.IH)
qed

lemma deprecatedWorkerKeys_nonempty: "deprecatedWorkerKeys \<noteq> []"
  by (simp add: deprecatedWorkerKeys_def)

lemma reads_getWorker: "reads p (getWorker p)"
  unfolding getWorker_def Let_def
  by (auto intro!: reads_intros reads_warn_keys reads_configOrDefault reads_configMember
        reads_configHasOwnProp)

lemma fst_getWorker_seen:
  assumes "seen p st = seen p st'"
  shows "fst (getWorker p st) = fst (getWorker p st')"
  using assms
  by (simp add: getWorker_def Let_def fst_simps reads_simps fst_warn_keys fst_configOrDefault
        reads_seen[OF reads_warn_keys] reads_seen[OF reads_configOrDefault]
        deprecatedWorkerKeys_nonempty)

lemma reads_workerDynamicPoolInUse: "reads p (workerDynamicPoolInUse p)"
  unfolding workerDynamicPoolInUse_def by (intro reads_intros reads_getWorker)

lemma fst_workerPoolInUse_seen:
  assumes "seen p st = seen p st'"
  shows "fst (workerPoolInUse p st) = fst (workerPoolInUse p st')"
  by (simp add: workerPoolInUse_def fst_and_then fst_getWorker_seen[OF assms] fst_ok
        split: sum.splits)

lemma pool_of_dynamic:
  "fst (workerDynamicPoolInUse p st) = Inr True \<Longrightarrow> fst (workerPoolInUse p st) = Inr True"
  by (auto simp: workerDynamicPoolInUse_def workerPoolInUse_def fst_and_then fst_ok
        split: sum.splits)

lemma fst_getWorker_processType:
  assumes "seen p st = JObj [(''worker'', JObj [(''processType'', JStr s)])]"
  shows "\<exists>w. fst (getWorker p st) = Inr w \<and> member w ''processType'' = Some (JStr s)"
  using assms
  by (simp add: getWorker_def Let_def fst_simps reads_simps fst_warn_keys fst_configOrDefault
        reads_seen[OF reads_warn_keys] reads_seen[OF reads_configOrDefault]
        deprecatedWorkerKeys_nonempty hasOwnProp_def opt_entries_def map_of_assign_entries)

text \<open>
  Claim C10: for every document, when \<^verbatim>\<open>workerDynamicPoolInUse()\<close> returns true, so does
  \<^verbatim>\<open>workerPoolInUse()\<close>, called in the same store or right after it; and the converse
  fails: where the two members of the enumeration differ, a document that asks for a
  static pool makes \<^verbatim>\<open>workerPoolInUse()\<close> true and \<^verbatim>\<open>workerDynamicPoolInUse()\<close> false.
\<close>

theorem dynamic_pool_implies_pool:
  "(fst (workerDynamicPoolInUse p st) = Inr True \<longrightarrow>
      fst (workerPoolInUse p st) = Inr True \<and>
      fst (workerPoolInUse p (snd (workerDynamicPoolInUse p st))) = Inr True) \<and>
   (WorkerProcessType_staticPool p \<noteq> WorkerProcessType_dynamicPool p \<and>
    fst (getConfig p st) =
      Inr (JObj [(''worker'',
                    JObj [(''processType'', JStr (WorkerProcessType_staticPool p))])]) \<longrightarrow>
      fst (workerPoolInUse p st) = Inr True \<and> fst (workerDynamicPoolInUse p st) = Inr False)"
proof (intro conjI impI)
  assume d: "fst (workerDynamicPoolInUse p st) = Inr True"
  then show a: "fst (workerPoolInUse p st) = Inr True"
    by (rule pool_of_dynamic)
  have "seen p (snd (workerDynamicPoolInUse p st)) = seen p st"
    by (rule reads_seen[OF reads_workerDynamicPoolInUse])
  from fst_workerPoolInUse_seen[OF this] a
  show "fst (workerPoolInUse p (snd (workerDynamicPoolInUse p st))) = Inr True"
    by simp
next
  assume h: "WorkerProcessType_staticPool p \<noteq> WorkerProcessType_dynamicPool p \<and>
    fst (getConfig p st) =
      Inr (JObj [(''worker'',
                    JObj [(''processType'', JStr (WorkerProcessType_staticPool p))])])"
  then have "seen p st =
      JObj [(''worker'', JObj [(''processType'', JStr (WorkerProcessType_staticPool p))])]"
    by (simp add: getConfig_fst)
  from fst_getWorker_processType[OF this] obtain w where
    w: "fst (getWorker p st) = Inr w"
       "member w ''processType'' = Some (JStr (WorkerProcessType_staticPool p))"
    by blast
  from w h show "fst (workerPoolInUse p st) = Inr True"
    by (simp add: workerPoolInUse_def fst_and_then fst_ok)
  from w h show "fst (workerDynamicPoolInUse p st) = Inr False"
    by (simp add: workerDynamicPoolInUse_def fst_and_then fst_ok)
qed

theorem dynamic_pool_implies_pool_witness:
  "fst (workerDynamicPoolInUse
          (example_platform
             (Inr (JObj [(''worker'', JObj [(''processType'', JStr ''dynamicPool'')])])))
          initial_store) = Inr True
   \<and> fst (workerPoolInUse
          (example_platform
             (Inr (JObj [(''worker'', JObj [(''processType'', JStr ''dynamicPool'')])])))
          initial_store) = Inr True
   \<and> fst (workerPoolInUse
          (example_platform
             (Inr (JObj [(''worker'', JObj [(''processType'', JStr ''staticPool'')])])))
          initial_store) = Inr True
   \<and> fst (workerDynamicPoolInUse
          (example_platform
             (Inr (JObj [(''worker'', JObj [(''processType'', JStr ''staticPool'')])])))
          initial_store) = Inr False"
proof -
  let ?p = "example_platform
              (Inr (JObj [(''worker'', JObj [(''processType'', JStr ''dynamicPool'')])]))"
  let ?q = "example_platform
              (Inr (JObj [(''worker'', JObj [(''processType'', JStr ''staticPool'')])]))"
  have h: "fst (workerDynamicPoolInUse ?p initial_store) = Inr True"
    by code_simp
  have d: "WorkerProcessType_staticPool ?q \<noteq> WorkerProcessType_dynamicPool ?q"
    by (simp add: example_platform_def)
  have g: "fst (getConfig ?q initial_store) =
      Inr (JObj [(''worker'',
                    JObj [(''processType'', JStr (WorkerProcessType_staticPool ?q))])])"
    by code_simp
  from dynamic_pool_implies_pool[of ?p initial_store] h
    dynamic_pool_implies_pool[of ?q initial_store] d g
  show ?thesis
    by blast
qed

end
